theory Spec2Isabelle
  imports Main "HOL-Library.Word"
begin

unbundle bit_operations_syntax

section \<open>Card authentication flow (auth\_card.c)\<close>

subsection \<open>Protocol data\<close>

text \<open>
  The flow status is a process-wide cell read by \<^verbatim>\<open>core_status_get_flow_status\<close> and
  written by \<^verbatim>\<open>core_status_set_flow_status\<close>. The five named values are the ones
  auth\_card.c uses; the last constructor stands for any other content of the cell
  (left there by another flow).
\<close>

datatype manager_auth_card_status =
    MANAGER_AUTH_CARD_STATUS_INIT
  | MANAGER_AUTH_CARD_STATUS_USER_CONFIRMED
  | MANAGER_AUTH_CARD_STATUS_SERIAL_SIGNED
  | MANAGER_AUTH_CARD_STATUS_CHALLENGE_SIGNED
  | MANAGER_AUTH_CARD_STATUS_PAIRING_DONE
  | MANAGER_AUTH_CARD_STATUS_OTHER nat

datatype manager_error_code =
    MANAGER_TASK_SUCCESS
  | MANAGER_TASK_INVALID_ARGS
  | MANAGER_TASK_INVALID_STATE
  | MANAGER_TASK_DECODING_FAILED
  | MANAGER_TASK_ENCODING_FAILED
  | MANAGER_TASK_UNKNOWN_QUERY_REQUEST
  | MANAGER_TASK_P0_ABORT_OCCURED
  | MANAGER_TASK_INVALID_DEFAULT

text \<open>
  Discriminants of the generated message structs. The value 0 of a discriminant (no member
  of the oneof decoded) is the \<open>NONE\<close> constructor; a discriminant that names a
  member this file does not handle is the \<open>OTHER\<close> constructor.
\<close>

datatype manager_query_tag =
    MANAGER_QUERY_NONE
  | MANAGER_QUERY_AUTH_CARD_TAG
  | MANAGER_QUERY_OTHER_TAG nat

datatype manager_auth_card_request_tag =
    MANAGER_AUTH_CARD_REQUEST_NONE
  | MANAGER_AUTH_CARD_REQUEST_INITIATE_TAG
  | MANAGER_AUTH_CARD_REQUEST_CHALLENGE_TAG
  | MANAGER_AUTH_CARD_REQUEST_RESULT_TAG
  | MANAGER_AUTH_CARD_REQUEST_OTHER_TAG nat

datatype manager_auth_card_response_tag =
    MANAGER_AUTH_CARD_RESPONSE_NONE
  | MANAGER_AUTH_CARD_RESPONSE_SERIAL_SIGNATURE_TAG
  | MANAGER_AUTH_CARD_RESPONSE_CHALLENGE_SIGNATURE_TAG
  | MANAGER_AUTH_CARD_RESPONSE_FLOW_COMPLETE_TAG

record manager_auth_card_initiate_request =
  has_card_index :: bool
  card_index :: "32 word"
  has_pair_card :: bool
  pair_card :: bool

record manager_auth_card_result_request =
  verified :: bool

text \<open>
  \<^verbatim>\<open>query.auth_card\<close>: the sub-type discriminant and the members the handlers read.
  In C the members share one union; each handler reads the member of the request it handles.
\<close>

record manager_auth_card_request =
  auth_card_which_request :: manager_auth_card_request_tag
  initiate :: manager_auth_card_initiate_request
  result :: manager_auth_card_result_request

record manager_query =
  which_request :: manager_query_tag
  auth_card :: manager_auth_card_request

text \<open>
  The response struct: its discriminant and the one member field the code writes
  (\<^verbatim>\<open>flow_complete.dummy_field\<close>). The signature members are never written by this file.
\<close>

record manager_auth_card_response =
  which_response :: manager_auth_card_response_tag
  flow_complete_dummy_field :: "8 word"

record manager_result =
  result_which_response :: manager_query_tag
  result_auth_card :: manager_auth_card_response

definition MANAGER_AUTH_CARD_RESPONSE_INIT_ZERO :: manager_auth_card_response where
  "MANAGER_AUTH_CARD_RESPONSE_INIT_ZERO =
     \<lparr>which_response = MANAGER_AUTH_CARD_RESPONSE_NONE, flow_complete_dummy_field = 0\<rparr>"

record auth_card_screen_ctx_t =
  heading :: string
  message :: string
  acceptable_cards :: "8 word"
  pair_card_required :: bool

record auth_card_data_t =
  query :: manager_query
  ctx :: auth_card_screen_ctx_t

subsection \<open>Events and the machine state\<close>

record usb_event_t =
  flag :: bool
  p_msg :: "8 word list"

record evt_status_t =
  p0_event_flag :: bool
  usb_event :: usb_event_t

datatype event_config = EVENT_CONFIG_NFC | EVENT_CONFIG_USB

datatype screen =
    Instruction_scr string string
  | Delay_scr string nat

text \<open>
  Everything outside the handlers' arguments that auth\_card.c reads or writes:
  the flow-status cell, the event source (the statuses that the successive blocking calls
  of \<^verbatim>\<open>get_events\<close> return, in order), the messages handed to \<^verbatim>\<open>usb_send_msg\<close>,
  the screens shown, and counters for \<^verbatim>\<open>nfc_en_select_card_task\<close> and
  \<^verbatim>\<open>usb_clear_event\<close>. \<open>status_trace\<close> records every write to the flow-status
  cell, oldest first.
\<close>

record machine =
  flow_status :: manager_auth_card_status
  status_trace :: "manager_auth_card_status list"
  events :: "evt_status_t list"
  usb_sent :: "8 word list list"
  screens :: "screen list"
  nfc_select_tasks :: nat
  usb_clears :: nat

datatype fault = NullDereference | AssertionFailed

text \<open>
  How a call ends: it returns, it is still blocked in \<^verbatim>\<open>get_events\<close> when the event
  source has nothing more to deliver, or it dereferences NULL or fails an \<^verbatim>\<open>ASSERT\<close>.
\<close>

datatype 'a exec = Returned 'a | Blocked machine | Fault fault

subsection \<open>Constants and helpers declared outside the translated files\<close>

text \<open>
  The text constants, the card-number encoding, the sizes and the message codec are
  declared in headers that are not part of the translated sources; they are parameters.
  \<open>UI_TEXT_TAP_CARD\<close> and \<open>UI_TEXT_PLACE_CARD_TILL_BEEP\<close> are format strings with one
  integer argument and are taken as the function from the argument to the formatted text.
  \<open>encode_card_number\<close> gives the value as stored in the \<^verbatim>\<open>uint8_t\<close> field.
\<close>

record platform =
  ACCEPTABLE_CARDS_ALL :: "8 word"
  encode_card_number :: "32 word \<Rightarrow> 8 word"
  UI_TEXT_TAP_CARD :: "8 word \<Rightarrow> string"
  ui_text_tap_a_card :: string
  UI_TEXT_PLACE_CARD_TILL_BEEP :: "int \<Rightarrow> string"
  ui_text_card_authentication_failed :: string
  ui_text_card_authentication_success :: string
  DELAY_TIME :: nat
  MANAGER_AUTH_CARD_RESPONSE_SIZE :: nat
  decode_manager_query :: "8 word list \<Rightarrow> manager_query option"
  encode_manager_result :: "manager_result \<Rightarrow> nat \<Rightarrow> 8 word list option"

text \<open>\<^verbatim>\<open>snprintf(buf, size, ...)\<close> stores at most \<open>size - 1\<close> characters.\<close>

definition snprintf :: "nat \<Rightarrow> string \<Rightarrow> string" where
  "snprintf n s = take (n - 1) s"

definition SIGN_SERIAL_BEEP_COUNT :: "bool \<Rightarrow> int" where
  "SIGN_SERIAL_BEEP_COUNT pcr = (if pcr then 3 else 2)"

definition SIGN_CHALLENGE_BEEP_COUNT :: "bool \<Rightarrow> int" where
  "SIGN_CHALLENGE_BEEP_COUNT pcr = (if pcr then 2 else 1)"

definition core_status_get_flow_status :: "machine \<Rightarrow> manager_auth_card_status" where
  "core_status_get_flow_status m = flow_status m"

definition core_status_set_flow_status :: "manager_auth_card_status \<Rightarrow> machine \<Rightarrow> machine" where
  "core_status_set_flow_status s m = m\<lparr>flow_status := s, status_trace := status_trace m @ [s]\<rparr>"

text \<open>
  \<^verbatim>\<open>get_events(config, timeout)\<close> blocks until an event of the awaited kind or an
  abort/timeout arrives and returns the status. The call takes the next status of the event
  source; with none left it does not return (\<open>None\<close>). The awaited kind is passed for
  the record only: what arrives is decided by the event source.
\<close>

definition get_events :: "event_config \<Rightarrow> machine \<Rightarrow> (evt_status_t \<times> machine) option" where
  "get_events cfg m =
     (case events m of
        [] \<Rightarrow> None
      | e # es \<Rightarrow> Some (e, m\<lparr>events := es\<rparr>))"

definition instruction_scr_init :: "string \<Rightarrow> string \<Rightarrow> machine \<Rightarrow> machine" where
  "instruction_scr_init msg hdg m = m\<lparr>screens := screens m @ [Instruction_scr msg hdg]\<rparr>"

definition delay_scr_init :: "string \<Rightarrow> nat \<Rightarrow> machine \<Rightarrow> machine" where
  "delay_scr_init msg t m = m\<lparr>screens := screens m @ [Delay_scr msg t]\<rparr>"

definition nfc_en_select_card_task :: "machine \<Rightarrow> machine" where
  "nfc_en_select_card_task m = m\<lparr>nfc_select_tasks := Suc (nfc_select_tasks m)\<rparr>"

definition usb_clear_event :: "machine \<Rightarrow> machine" where
  "usb_clear_event m = m\<lparr>usb_clears := Suc (usb_clears m)\<rparr>"

definition usb_send_msg :: "8 word list \<Rightarrow> machine \<Rightarrow> machine" where
  "usb_send_msg bytes m = m\<lparr>usb_sent := usb_sent m @ [bytes]\<rparr>"

subsection \<open>Static functions\<close>

text \<open>Pointers are options: \<open>None\<close> is NULL. The second component is the query object
  behind \<^verbatim>\<open>query_out\<close> after the call.\<close>

definition decode_and_verify_auth_card_query_if_usb_evt ::
  "platform \<Rightarrow> usb_event_t option \<Rightarrow> manager_query option
     \<Rightarrow> manager_error_code \<times> manager_query option" where
  "decode_and_verify_auth_card_query_if_usb_evt pf usb_evt query_out =
     (case usb_evt of
        None \<Rightarrow> (MANAGER_TASK_INVALID_ARGS, query_out)
      | Some evt \<Rightarrow>
          if query_out = None then (MANAGER_TASK_INVALID_ARGS, query_out)
          else if flag evt = False then (MANAGER_TASK_SUCCESS, query_out)
          else (case decode_manager_query pf (p_msg evt) of
                  None \<Rightarrow> (MANAGER_TASK_DECODING_FAILED, query_out)
                | Some q \<Rightarrow>
                    if which_request q \<noteq> MANAGER_QUERY_AUTH_CARD_TAG
                    then (MANAGER_TASK_UNKNOWN_QUERY_REQUEST, query_out)
                    else (MANAGER_TASK_SUCCESS, Some q)))"

definition send_auth_card_response ::
  "platform \<Rightarrow> manager_auth_card_response option \<Rightarrow> machine
     \<Rightarrow> manager_error_code \<times> machine" where
  "send_auth_card_response pf resp m =
     (case resp of
        None \<Rightarrow> (MANAGER_TASK_INVALID_ARGS, m)
      | Some r \<Rightarrow>
          if which_response r = MANAGER_AUTH_CARD_RESPONSE_NONE
          then (MANAGER_TASK_INVALID_ARGS, m)
          else (let res = \<lparr>result_which_response = MANAGER_QUERY_AUTH_CARD_TAG,
                           result_auth_card = r\<rparr>
                in case encode_manager_result pf res (MANAGER_AUTH_CARD_RESPONSE_SIZE pf + 4) of
                     None \<Rightarrow> (MANAGER_TASK_ENCODING_FAILED, m)
                   | Some buffer \<Rightarrow> (MANAGER_TASK_SUCCESS, usb_send_msg buffer m)))"

definition prepare_card_auth_context :: "platform \<Rightarrow> auth_card_data_t \<Rightarrow> auth_card_data_t" where
  "prepare_card_auth_context pf d =
     (let ini = initiate (auth_card (query d));
          c0 = (ctx d)\<lparr>acceptable_cards := ACCEPTABLE_CARDS_ALL pf\<rparr>;
          c1 = (if has_card_index ini
                then c0\<lparr>acceptable_cards := encode_card_number pf (card_index ini),
                        heading := snprintf 30 (UI_TEXT_TAP_CARD pf (ucast (card_index ini)))\<rparr>
                else c0\<lparr>heading := snprintf 30 (ui_text_tap_a_card pf)\<rparr>);
          c2 = c1\<lparr>pair_card_required := False\<rparr>;
          c3 = (if has_pair_card ini then c2\<lparr>pair_card_required := pair_card ini\<rparr> else c2);
          c4 = c3\<lparr>message := snprintf 100
                  (UI_TEXT_PLACE_CARD_TILL_BEEP pf (SIGN_SERIAL_BEEP_COUNT (pair_card_required c3)))\<rparr>
      in d\<lparr>ctx := c4\<rparr>)"

subsection \<open>Query handlers\<close>

type_synonym handler_result =
  "manager_error_code \<times> auth_card_data_t option \<times> manager_auth_card_response option \<times> machine"

text \<open>
  A handler takes the two pointers and the machine state, and gives back the error code, the
  objects behind the two pointers after the call, and the machine state.
\<close>

definition handle_sign_card_serial ::
  "platform \<Rightarrow> auth_card_data_t option \<Rightarrow> manager_auth_card_response option \<Rightarrow> machine
     \<Rightarrow> handler_result exec" where
  "handle_sign_card_serial pf auth_card_data resp m =
     (if auth_card_data = None \<or> resp = None
      then Returned (MANAGER_TASK_INVALID_ARGS, auth_card_data, resp, m)
      else (case (auth_card_data, resp) of
              (Some d, Some r) \<Rightarrow>
                (let m1 = instruction_scr_init (message (ctx d)) (heading (ctx d)) m;
                     m2 = nfc_en_select_card_task m1
                 in case get_events EVENT_CONFIG_NFC m2 of
                      None \<Rightarrow> Blocked m2
                    | Some (status, m3) \<Rightarrow>
                        if p0_event_flag status = True
                        then Returned (MANAGER_TASK_P0_ABORT_OCCURED, Some d, Some r, m3)
                        else (let m4 = core_status_set_flow_status
                                         MANAGER_AUTH_CARD_STATUS_SERIAL_SIGNED m3;
                                  d1 = d\<lparr>ctx := (ctx d)\<lparr>message := snprintf 100
                                         (UI_TEXT_PLACE_CARD_TILL_BEEP pf
                                            (SIGN_CHALLENGE_BEEP_COUNT
                                               (pair_card_required (ctx d))))\<rparr>\<rparr>;
                                  m5 = instruction_scr_init (message (ctx d1)) (heading (ctx d1)) m4;
                                  r1 = r\<lparr>which_response :=
                                         MANAGER_AUTH_CARD_RESPONSE_SERIAL_SIGNATURE_TAG\<rparr>
                              in Returned (MANAGER_TASK_SUCCESS, Some d1, Some r1, m5)))
            | _ \<Rightarrow> Fault NullDereference))"

definition handle_sign_challenge ::
  "platform \<Rightarrow> auth_card_data_t option \<Rightarrow> manager_auth_card_response option \<Rightarrow> machine
     \<Rightarrow> handler_result exec" where
  "handle_sign_challenge pf auth_card_data resp m =
     (if auth_card_data = None \<or> resp = None
      then Returned (MANAGER_TASK_INVALID_ARGS, auth_card_data, resp, m)
      else (case (auth_card_data, resp) of
              (Some d, Some r) \<Rightarrow>
                (let m1 = nfc_en_select_card_task m
                 in case get_events EVENT_CONFIG_NFC m1 of
                      None \<Rightarrow> Blocked m1
                    | Some (status, m2) \<Rightarrow>
                        if p0_event_flag status = True
                        then Returned (MANAGER_TASK_P0_ABORT_OCCURED, Some d, Some r, m2)
                        else (let m3 = core_status_set_flow_status
                                         MANAGER_AUTH_CARD_STATUS_CHALLENGE_SIGNED m2;
                                  d1 = (if pair_card_required (ctx d)
                                        then d\<lparr>ctx := (ctx d)\<lparr>message := snprintf 100
                                               (UI_TEXT_PLACE_CARD_TILL_BEEP pf 1)\<rparr>\<rparr>
                                        else d\<lparr>ctx := (ctx d)\<lparr>message :=
                                               snprintf 100 ''...''\<rparr>\<rparr>);
                                  m4 = instruction_scr_init (message (ctx d1)) (heading (ctx d1)) m3;
                                  r1 = r\<lparr>which_response :=
                                         MANAGER_AUTH_CARD_RESPONSE_CHALLENGE_SIGNATURE_TAG\<rparr>
                              in Returned (MANAGER_TASK_SUCCESS, Some d1, Some r1, m4)))
            | _ \<Rightarrow> Fault NullDereference))"

definition handle_auth_card_initiate_query ::
  "platform \<Rightarrow> auth_card_data_t option \<Rightarrow> manager_auth_card_response option \<Rightarrow> machine
     \<Rightarrow> handler_result exec" where
  "handle_auth_card_initiate_query pf auth_card_data resp m =
     (if auth_card_data = None \<or> resp = None
      then Returned (MANAGER_TASK_INVALID_ARGS, auth_card_data, resp, m)
      else if MANAGER_AUTH_CARD_STATUS_INIT \<noteq> core_status_get_flow_status m
      then Returned (MANAGER_TASK_INVALID_STATE, auth_card_data, resp, m)
      else (let m1 = core_status_set_flow_status MANAGER_AUTH_CARD_STATUS_USER_CONFIRMED m
            in case auth_card_data of
                 None \<Rightarrow> Fault NullDereference
               | Some d \<Rightarrow>
                   handle_sign_card_serial pf (Some (prepare_card_auth_context pf d)) resp m1))"

definition handle_auth_card_challenge_query ::
  "platform \<Rightarrow> auth_card_data_t option \<Rightarrow> manager_auth_card_response option \<Rightarrow> machine
     \<Rightarrow> handler_result exec" where
  "handle_auth_card_challenge_query pf auth_card_data resp m =
     (if auth_card_data = None \<or> resp = None
      then Returned (MANAGER_TASK_INVALID_ARGS, auth_card_data, resp, m)
      else if MANAGER_AUTH_CARD_STATUS_SERIAL_SIGNED \<noteq> core_status_get_flow_status m
      then Returned (MANAGER_TASK_INVALID_STATE, auth_card_data, resp, m)
      else handle_sign_challenge pf auth_card_data resp m)"

text \<open>
  The three places of \<^verbatim>\<open>handle_auth_card_result_query\<close> that write the flow-complete
  response and show the delay screen; \<^verbatim>\<open>resp\<close> is dereferenced there.
\<close>

definition flow_complete_response ::
  "manager_auth_card_response option \<Rightarrow> manager_auth_card_response option exec" where
  "flow_complete_response resp =
     (case resp of
        None \<Rightarrow> Fault NullDereference
      | Some r \<Rightarrow> Returned (Some (r\<lparr>which_response := MANAGER_AUTH_CARD_RESPONSE_FLOW_COMPLETE_TAG,
                                    flow_complete_dummy_field := 0\<rparr>)))"

definition handle_auth_card_result_query ::
  "platform \<Rightarrow> auth_card_data_t option \<Rightarrow> manager_auth_card_response option \<Rightarrow> machine
     \<Rightarrow> handler_result exec" where
  "handle_auth_card_result_query pf auth_card_data resp m =
     (if auth_card_data = None \<and> resp \<noteq> None
      then Returned (MANAGER_TASK_INVALID_ARGS, auth_card_data, resp, m)
      else (case auth_card_data of
              None \<Rightarrow> Fault NullDereference
            | Some d \<Rightarrow>
                (let res = verified (result (auth_card (query d)))
                 in case core_status_get_flow_status m of
                      MANAGER_AUTH_CARD_STATUS_SERIAL_SIGNED \<Rightarrow>
                        if res = False
                        then (case flow_complete_response resp of
                                Returned resp1 \<Rightarrow>
                                  Returned (MANAGER_TASK_SUCCESS, auth_card_data, resp1,
                                    delay_scr_init (ui_text_card_authentication_failed pf)
                                      (DELAY_TIME pf) m)
                              | Blocked mb \<Rightarrow> Blocked mb
                              | Fault f \<Rightarrow> Fault f)
                        else Returned (MANAGER_TASK_INVALID_STATE, auth_card_data, resp, m)
                    | MANAGER_AUTH_CARD_STATUS_CHALLENGE_SIGNED \<Rightarrow>
                        if res = False
                        then (case flow_complete_response resp of
                                Returned resp1 \<Rightarrow>
                                  Returned (MANAGER_TASK_SUCCESS, auth_card_data, resp1,
                                    delay_scr_init (ui_text_card_authentication_failed pf)
                                      (DELAY_TIME pf) m)
                              | Blocked mb \<Rightarrow> Blocked mb
                              | Fault f \<Rightarrow> Fault f)
                        else (let m1 = core_status_set_flow_status
                                         MANAGER_AUTH_CARD_STATUS_PAIRING_DONE m
                              in case flow_complete_response resp of
                                   Returned resp1 \<Rightarrow>
                                     Returned (MANAGER_TASK_SUCCESS, auth_card_data, resp1,
                                       delay_scr_init (ui_text_card_authentication_success pf)
                                         (DELAY_TIME pf) m1)
                                 | Blocked mb \<Rightarrow> Blocked mb
                                 | Fault f \<Rightarrow> Fault f)
                    | _ \<Rightarrow> Returned (MANAGER_TASK_INVALID_STATE, auth_card_data, resp, m))))"

definition handle_auth_card_query ::
  "platform \<Rightarrow> auth_card_data_t option \<Rightarrow> manager_auth_card_response option \<Rightarrow> machine
     \<Rightarrow> handler_result exec" where
  "handle_auth_card_query pf auth_card_data resp m =
     (if auth_card_data = None \<or> resp = None
      then Returned (MANAGER_TASK_INVALID_ARGS, auth_card_data, resp, m)
      else (case auth_card_data of
              None \<Rightarrow> Fault NullDereference
            | Some d \<Rightarrow>
                (case auth_card_which_request (auth_card (query d)) of
                   MANAGER_AUTH_CARD_REQUEST_INITIATE_TAG \<Rightarrow>
                     handle_auth_card_initiate_query pf auth_card_data resp m
                 | MANAGER_AUTH_CARD_REQUEST_CHALLENGE_TAG \<Rightarrow>
                     handle_auth_card_challenge_query pf auth_card_data resp m
                 | MANAGER_AUTH_CARD_REQUEST_RESULT_TAG \<Rightarrow>
                     handle_auth_card_result_query pf auth_card_data resp m
                 | _ \<Rightarrow> Returned (MANAGER_TASK_UNKNOWN_QUERY_REQUEST, auth_card_data, resp, m))))"

subsection \<open>The driver\<close>

text \<open>
  One pass through the body of the \<^verbatim>\<open>do ... while\<close> loop of \<^verbatim>\<open>card_auth_handler\<close>,
  from the dispatch to the loop condition: either the function is left (\<open>Stop\<close>), or the
  body runs again with the local variables and machine state given by \<open>Continue\<close>.
  \<^verbatim>\<open>HANDLE_P0_EVENTS()\<close> after the loop expands to nothing.
\<close>

datatype loop_step =
    Stop "machine exec"
  | Continue auth_card_data_t manager_auth_card_response machine

definition card_auth_iter ::
  "platform \<Rightarrow> auth_card_data_t \<Rightarrow> manager_auth_card_response \<Rightarrow> machine \<Rightarrow> loop_step" where
  "card_auth_iter pf auth_card_data resp m =
     (case handle_auth_card_query pf (Some auth_card_data) (Some resp) m of
        Blocked mb \<Rightarrow> Stop (Blocked mb)
      | Fault f \<Rightarrow> Stop (Fault f)
      | Returned (code, Some d1, Some r1, m1) \<Rightarrow>
          if MANAGER_TASK_SUCCESS \<noteq> code then Stop (Returned (usb_clear_event m1))
          else (let (r2, m2) =
                      (if which_response r1 \<noteq> MANAGER_AUTH_CARD_RESPONSE_NONE
                       then (MANAGER_AUTH_CARD_RESPONSE_INIT_ZERO,
                             snd (send_auth_card_response pf (Some r1) m1))
                       else (r1, m1))
                in if MANAGER_AUTH_CARD_STATUS_PAIRING_DONE = core_status_get_flow_status m2
                   then Stop (Returned m2)
                   else (case get_events EVENT_CONFIG_USB m2 of
                           None \<Rightarrow> Stop (Blocked m2)
                         | Some (evt_status, m3) \<Rightarrow>
                             (case decode_and_verify_auth_card_query_if_usb_evt pf
                                     (Some (usb_event evt_status)) (Some (query d1)) of
                                (code2, Some q) \<Rightarrow>
                                  if MANAGER_TASK_SUCCESS \<noteq> code2
                                  then Stop (Returned (usb_clear_event m3))
                                  else if p0_event_flag evt_status = False
                                          \<or> MANAGER_AUTH_CARD_STATUS_PAIRING_DONE
                                               \<noteq> core_status_get_flow_status m3
                                  then Continue (d1\<lparr>query := q\<rparr>) r2 m3
                                  else Stop (Returned m3)
                              | (code2, None) \<Rightarrow> Stop (Fault NullDereference))))
      | Returned (code, _, _, m1) \<Rightarrow> Stop (Fault NullDereference))"

text \<open>
  Each pass that runs the body again has taken at least one status from the event source
  (the wait for the next host message), so the loop ends on every finite event source.
\<close>

lemma send_auth_card_response_events:
  "events (snd (send_auth_card_response pf resp m)) = events m"
  by (simp add: send_auth_card_response_def usb_send_msg_def Let_def split: option.splits)

lemma get_events_length:
  "get_events cfg m = Some (e, m') \<Longrightarrow> length (events m') < length (events m)"
  by (auto simp: get_events_def split: list.splits)

lemma handle_sign_card_serial_events:
  "handle_sign_card_serial pf d r m = Returned (c, d', r', m') \<Longrightarrow>
     length (events m') \<le> length (events m)"
  by (auto simp: handle_sign_card_serial_def get_events_def instruction_scr_init_def
        nfc_en_select_card_task_def core_status_set_flow_status_def Let_def
      split: if_splits option.splits list.splits prod.splits)

lemma handle_sign_challenge_events:
  "handle_sign_challenge pf d r m = Returned (c, d', r', m') \<Longrightarrow>
     length (events m') \<le> length (events m)"
  by (auto simp: handle_sign_challenge_def get_events_def instruction_scr_init_def
        nfc_en_select_card_task_def core_status_set_flow_status_def Let_def
      split: if_splits option.splits list.splits prod.splits)

lemma handle_auth_card_initiate_query_events:
  "handle_auth_card_initiate_query pf d r m = Returned (c, d', r', m') \<Longrightarrow>
     length (events m') \<le> length (events m)"
  by (auto simp: handle_auth_card_initiate_query_def core_status_set_flow_status_def Let_def
      split: if_splits option.splits dest!: handle_sign_card_serial_events)

lemma handle_auth_card_challenge_query_events:
  "handle_auth_card_challenge_query pf d r m = Returned (c, d', r', m') \<Longrightarrow>
     length (events m') \<le> length (events m)"
  by (auto simp: handle_auth_card_challenge_query_def
      split: if_splits dest!: handle_sign_challenge_events)

lemma handle_auth_card_result_query_events:
  "handle_auth_card_result_query pf d r m = Returned (c, d', r', m') \<Longrightarrow>
     length (events m') \<le> length (events m)"
  by (auto simp: handle_auth_card_result_query_def flow_complete_response_def
        delay_scr_init_def core_status_set_flow_status_def Let_def
      split: if_splits option.splits manager_auth_card_status.splits exec.splits)

lemma handle_auth_card_query_events:
  "handle_auth_card_query pf d r m = Returned (c, d', r', m') \<Longrightarrow>
     length (events m') \<le> length (events m)"
  by (auto simp: handle_auth_card_query_def
      split: if_splits option.splits manager_auth_card_request_tag.splits
      dest: handle_auth_card_initiate_query_events handle_auth_card_challenge_query_events
        handle_auth_card_result_query_events)

lemma card_auth_iter_decreases:
  assumes "card_auth_iter pf d r m = Continue d' r' m'"
  shows "length (events m') < length (events m)"
proof (cases "handle_auth_card_query pf (Some d) (Some r) m")
  case (Returned res)
  obtain c od orr m1 where res: "res = (c, od, orr, m1)"
    by (cases res) auto
  have le: "length (events m1) \<le> length (events m)"
    using Returned res handle_auth_card_query_events by blast
  show ?thesis
    using assms le get_events_length send_auth_card_response_events[of pf "Some (the orr)" m1]
    unfolding card_auth_iter_def Returned res
    by (auto simp: Let_def core_status_get_flow_status_def
          split: if_splits option.splits prod.splits dest!: get_events_length)
next
  case (Blocked mb)
  with assms show ?thesis by (simp add: card_auth_iter_def)
next
  case (Fault f)
  with assms show ?thesis by (simp add: card_auth_iter_def)
qed

text \<open>The \<^verbatim>\<open>do ... while\<close> loop.\<close>

function card_auth_loop ::
  "platform \<Rightarrow> auth_card_data_t \<Rightarrow> manager_auth_card_response \<Rightarrow> machine \<Rightarrow> machine exec" where
  "card_auth_loop pf auth_card_data resp m =
     (case card_auth_iter pf auth_card_data resp m of
        Stop out \<Rightarrow> out
      | Continue d1 r1 m1 \<Rightarrow> card_auth_loop pf d1 r1 m1)"
  by pat_completeness auto
termination
  by (relation "measure (\<lambda>(pf, d, r, m). length (events m))")
     (auto dest: card_auth_iter_decreases)

declare card_auth_loop.simps [simp del]

text \<open>
  \<^verbatim>\<open>card_auth_handler\<close>: the assertion, the check of the sub-type, the initial values of
  the locals, the reset of the flow status, and the loop.
\<close>

definition card_auth_handler :: "platform \<Rightarrow> manager_query option \<Rightarrow> machine \<Rightarrow> machine exec" where
  "card_auth_handler pf query_in m =
     (case query_in of
        None \<Rightarrow> Fault AssertionFailed
      | Some q \<Rightarrow>
          if MANAGER_AUTH_CARD_REQUEST_INITIATE_TAG \<noteq> auth_card_which_request (auth_card q)
          then Returned m
          else (let resp = MANAGER_AUTH_CARD_RESPONSE_INIT_ZERO;
                    auth_card_data =
                      \<lparr>query = q,
                       ctx = \<lparr>heading = [], message = [],
                              acceptable_cards = ACCEPTABLE_CARDS_ALL pf,
                              pair_card_required = False\<rparr>\<rparr>;
                    m1 = core_status_set_flow_status MANAGER_AUTH_CARD_STATUS_INIT m
                in card_auth_loop pf auth_card_data resp m1))"

subsection \<open>A sample platform and sample inputs\<close>

text \<open>
  A concrete choice of the parameters (a three-byte message format, short texts, the
  card-number encoding as one bit per card slot), on which the theorems below are run.
\<close>

fun sample_decode :: "8 word list \<Rightarrow> manager_query option" where
  "sample_decode (t # s # v # rest) =
     Some \<lparr>which_request =
              (if t = 0 then MANAGER_QUERY_NONE
               else if t = 1 then MANAGER_QUERY_AUTH_CARD_TAG
               else MANAGER_QUERY_OTHER_TAG (unat t)),
           auth_card =
             \<lparr>auth_card_which_request =
                (if s = 0 then MANAGER_AUTH_CARD_REQUEST_NONE
                 else if s = 1 then MANAGER_AUTH_CARD_REQUEST_INITIATE_TAG
                 else if s = 2 then MANAGER_AUTH_CARD_REQUEST_CHALLENGE_TAG
                 else if s = 3 then MANAGER_AUTH_CARD_REQUEST_RESULT_TAG
                 else MANAGER_AUTH_CARD_REQUEST_OTHER_TAG (unat s)),
              initiate = \<lparr>has_card_index = False, card_index = 0,
                          has_pair_card = True, pair_card = (v \<noteq> 0)\<rparr>,
              result = \<lparr>verified = (v \<noteq> 0)\<rparr>\<rparr>\<rparr>"
| "sample_decode _ = None"

definition sample_encode :: "manager_result \<Rightarrow> nat \<Rightarrow> 8 word list option" where
  "sample_encode res n =
     (if n < 2 then None
      else Some [case which_response (result_auth_card res) of
                   MANAGER_AUTH_CARD_RESPONSE_NONE \<Rightarrow> 0
                 | MANAGER_AUTH_CARD_RESPONSE_SERIAL_SIGNATURE_TAG \<Rightarrow> 1
                 | MANAGER_AUTH_CARD_RESPONSE_CHALLENGE_SIGNATURE_TAG \<Rightarrow> 2
                 | MANAGER_AUTH_CARD_RESPONSE_FLOW_COMPLETE_TAG \<Rightarrow> 3,
                 flow_complete_dummy_field (result_auth_card res)])"

definition sample_digit :: "int \<Rightarrow> string" where
  "sample_digit n =
     (if n = 1 then ''1'' else if n = 2 then ''2'' else if n = 3 then ''3''
      else if n = 4 then ''4'' else ''?'')"

definition sample_platform :: platform where
  "sample_platform =
     \<lparr>ACCEPTABLE_CARDS_ALL = 15,
      encode_card_number = (\<lambda>x. ucast (push_bit (unat (x - 1)) (1 :: 32 word))),
      UI_TEXT_TAP_CARD = (\<lambda>n. ''Tap card #'' @ sample_digit (uint n)),
      ui_text_tap_a_card = ''Tap a card'',
      UI_TEXT_PLACE_CARD_TILL_BEEP = (\<lambda>n. ''Place card till beep '' @ sample_digit n),
      ui_text_card_authentication_failed = ''Card authentication failed'',
      ui_text_card_authentication_success = ''Card authenticated'',
      DELAY_TIME = 3000,
      MANAGER_AUTH_CARD_RESPONSE_SIZE = 64,
      decode_manager_query = sample_decode,
      encode_manager_result = sample_encode\<rparr>"

definition sample_query :: "manager_auth_card_request_tag \<Rightarrow> bool \<Rightarrow> manager_query" where
  "sample_query t v =
     \<lparr>which_request = MANAGER_QUERY_AUTH_CARD_TAG,
      auth_card = \<lparr>auth_card_which_request = t,
                   initiate = \<lparr>has_card_index = True, card_index = 2,
                               has_pair_card = True, pair_card = v\<rparr>,
                   result = \<lparr>verified = v\<rparr>\<rparr>\<rparr>"

definition sample_machine :: "manager_auth_card_status \<Rightarrow> evt_status_t list \<Rightarrow> machine" where
  "sample_machine s es =
     \<lparr>flow_status = s, status_trace = [], events = es, usb_sent = [], screens = [],
      nfc_select_tasks = 0, usb_clears = 0\<rparr>"

definition nfc_evt :: evt_status_t where
  "nfc_evt = \<lparr>p0_event_flag = False, usb_event = \<lparr>flag = False, p_msg = []\<rparr>\<rparr>"

definition p0_evt :: evt_status_t where
  "p0_evt = \<lparr>p0_event_flag = True, usb_event = \<lparr>flag = False, p_msg = []\<rparr>\<rparr>"

definition usb_evt :: "8 word list \<Rightarrow> evt_status_t" where
  "usb_evt bytes = \<lparr>p0_event_flag = False, usb_event = \<lparr>flag = True, p_msg = bytes\<rparr>\<rparr>"

definition sample_data :: "manager_auth_card_request_tag \<Rightarrow> bool \<Rightarrow> auth_card_data_t" where
  "sample_data t v =
     \<lparr>query = sample_query t v,
      ctx = \<lparr>heading = [], message = [], acceptable_cards = 15, pair_card_required = False\<rparr>\<rparr>"

section \<open>Wallet checksum (wallet.h)\<close>

record Wallet =
  wallet_name :: "8 word list"
  wallet_info :: "8 word"
  password_double_hash :: "8 word list"
  wallet_share_with_mac_and_nonce :: "8 word list"
  arbitrary_data_share :: "8 word list"
  number_of_mnemonics :: "8 word"
  minimum_number_of_shares :: "8 word"
  total_number_of_shares :: "8 word"
  arbitrary_data_size :: "8 word"
  xcor :: "8 word"
  checksum :: "8 word list"
  key :: "8 word list"
  beneficiary_key :: "8 word list"
  iv_for_beneficiary_key :: "8 word list"
  wallet_id :: "8 word list"

definition CHECKSUM_SIZE :: nat where
  "CHECKSUM_SIZE = 4"

text \<open>
  Modelled from the spec: the bodies of \<^verbatim>\<open>calculate_checksum\<close> and
  \<^verbatim>\<open>verify_checksum\<close> are missing (wallet.h only declares them). The serialisation order
  is the one given in the header comment and in the data model of the specification; the
  checksum is the first four bytes of the hash with the two low bits of the last byte set
  to \<open>01\<close>. The hash function (SHA-256) is a parameter.
\<close>

definition checksum_input :: "Wallet \<Rightarrow> 8 word list" where
  "checksum_input w =
     wallet_name w @ [xcor w] @ [number_of_mnemonics w] @ [total_number_of_shares w]
       @ wallet_share_with_mac_and_nonce w @ [minimum_number_of_shares w] @ [wallet_info w]
       @ key w @ wallet_id w @ arbitrary_data_share w"

definition calculate_checksum :: "(8 word list \<Rightarrow> 8 word list) \<Rightarrow> Wallet \<Rightarrow> 8 word list" where
  "calculate_checksum sha256 w =
     (let h = take CHECKSUM_SIZE (sha256 (checksum_input w))
      in h[CHECKSUM_SIZE - 1 := ((h ! (CHECKSUM_SIZE - 1)) AND 0xFC) OR 0x01])"

text \<open>Modelled from the spec: the checksum-present tag, the two low bits of the last
  checksum byte being \<open>01\<close>.\<close>

definition checksum_tag_set :: "Wallet \<Rightarrow> bool" where
  "checksum_tag_set w =
     (case drop (CHECKSUM_SIZE - 1) (checksum w) of
        [] \<Rightarrow> False
      | b # _ \<Rightarrow> b AND 0x03 = 0x01)"

text \<open>Modelled from the spec: \<^verbatim>\<open>verify_checksum\<close>, false on NULL, true when the tag is
  unset, and otherwise the comparison of the stored checksum with the recomputed one.\<close>

definition verify_checksum :: "(8 word list \<Rightarrow> 8 word list) \<Rightarrow> Wallet option \<Rightarrow> bool" where
  "verify_checksum sha256 wallet =
     (case wallet of
        None \<Rightarrow> False
      | Some w \<Rightarrow>
          if \<not> checksum_tag_set w then True
          else checksum w = calculate_checksum sha256 w)"

definition sample_sha256 :: "8 word list \<Rightarrow> 8 word list" where
  "sample_sha256 xs =
     (let l = of_nat (length xs)
      in [l, l + 1, l + 2, l + 3, l + 4, l + 5, l + 6, l + 7])"

definition sample_wallet :: "8 word list \<Rightarrow> Wallet" where
  "sample_wallet c =
     \<lparr>wallet_name = [87, 49], wallet_info = 1, password_double_hash = [1, 2],
      wallet_share_with_mac_and_nonce = [3, 4, 5], arbitrary_data_share = [],
      number_of_mnemonics = 24, minimum_number_of_shares = 2, total_number_of_shares = 5,
      arbitrary_data_size = 0, xcor = 1, checksum = c, key = [7], beneficiary_key = [8],
      iv_for_beneficiary_key = [9], wallet_id = [10, 11]\<rparr>"


section \<open>ETH sign-message back controller (sign\_messgae\_controller\_b\_eth.c)\<close>

text \<open>
  The values of \<^verbatim>\<open>flow_level.level_three\<close> that the controller distinguishes; every
  other value takes the \<^verbatim>\<open>default\<close> branch.
\<close>

datatype sign_msg_level =
    SIGN_MSG_VERIFY_COIN_ETH
  | SIGN_MSG_VERIFY_CONTRACT_ADDRESS_ETH
  | SIGN_MSG_ENTER_PIN_ETH
  | SIGN_MSG_ENTER_PASSPHRASE_ETH
  | SIGN_MSG_CONFIRM_PASSPHRASE_ETH
  | SIGN_MSG_OTHER_LEVEL nat

datatype reject_command =
    SIGN_MSG_START
  | USER_REJECT_PIN_INPUT
  | USER_REJECTED_PASSPHRASE_INPUT

record Wallet_credential_data =
  mnemonics :: "8 word list list"
  passphrase :: "8 word list"
  password_single_hash :: "8 word list"

record Flow_level =
  level_three :: sign_msg_level
  screen_input_input_text :: "8 word list"

record Counter =
  next_event_flag :: bool

record controller_state =
  flow_level :: Flow_level
  counter :: Counter
  wallet_credential_data :: Wallet_credential_data

text \<open>
  \<^verbatim>\<open>comm_reject_request\<close> and \<^verbatim>\<open>reset_flow_level\<close> are defined outside the translated
  sources; they are parameters, and may change any part of the state.
\<close>

record controller_env =
  comm_reject_request :: "reject_command \<Rightarrow> 8 word \<Rightarrow> controller_state \<Rightarrow> controller_state"
  reset_flow_level :: "controller_state \<Rightarrow> controller_state"

text \<open>\<^verbatim>\<open>memzero(buf, sizeof(buf))\<close> on a byte array.\<close>

definition memzero :: "8 word list \<Rightarrow> 8 word list" where
  "memzero buf = replicate (length buf) 0"

definition sign_message_controller_b_eth ::
  "controller_env \<Rightarrow> controller_state \<Rightarrow> controller_state" where
  "sign_message_controller_b_eth env s =
     (case level_three (flow_level s) of
        SIGN_MSG_VERIFY_COIN_ETH \<Rightarrow>
          (let s1 = comm_reject_request env SIGN_MSG_START 0 s;
               s2 = reset_flow_level env s1
           in s2\<lparr>counter := (counter s2)\<lparr>next_event_flag := True\<rparr>\<rparr>)
      | SIGN_MSG_VERIFY_CONTRACT_ADDRESS_ETH \<Rightarrow>
          (let s1 = comm_reject_request env SIGN_MSG_START 0 s;
               s2 = reset_flow_level env s1
           in s2\<lparr>counter := (counter s2)\<lparr>next_event_flag := True\<rparr>\<rparr>)
      | SIGN_MSG_ENTER_PIN_ETH \<Rightarrow>
          (let s1 = comm_reject_request env USER_REJECT_PIN_INPUT 0 s;
               s2 = reset_flow_level env s1;
               s3 = s2\<lparr>flow_level := (flow_level s2)\<lparr>screen_input_input_text :=
                         memzero (screen_input_input_text (flow_level s2))\<rparr>\<rparr>
           in s3\<lparr>counter := (counter s3)\<lparr>next_event_flag := True\<rparr>\<rparr>)
      | SIGN_MSG_ENTER_PASSPHRASE_ETH \<Rightarrow>
          (let s1 = comm_reject_request env USER_REJECTED_PASSPHRASE_INPUT 0 s;
               s2 = reset_flow_level env s1;
               s3 = s2\<lparr>flow_level := (flow_level s2)\<lparr>screen_input_input_text :=
                         memzero (screen_input_input_text (flow_level s2))\<rparr>\<rparr>
           in s3\<lparr>counter := (counter s3)\<lparr>next_event_flag := True\<rparr>\<rparr>)
      | SIGN_MSG_CONFIRM_PASSPHRASE_ETH \<Rightarrow>
          (let s1 = s\<lparr>wallet_credential_data := (wallet_credential_data s)\<lparr>passphrase :=
                         memzero (passphrase (wallet_credential_data s))\<rparr>\<rparr>
           in s1\<lparr>flow_level := (flow_level s1)\<lparr>level_three :=
                     SIGN_MSG_ENTER_PASSPHRASE_ETH\<rparr>\<rparr>)
      | SIGN_MSG_OTHER_LEVEL n \<Rightarrow> s)"

text \<open>All bytes of the credential data are zero.\<close>

definition all_zero :: "8 word list \<Rightarrow> bool" where
  "all_zero buf = (buf = replicate (length buf) 0)"

definition credential_data_zero :: "Wallet_credential_data \<Rightarrow> bool" where
  "credential_data_zero c =
     (all_zero (concat (mnemonics c)) \<and> all_zero (passphrase c)
      \<and> all_zero (password_single_hash c))"

text \<open>A sample environment whose two helpers leave the state alone, and a sample state in
  which the three credential fields hold data.\<close>

definition sample_env :: controller_env where
  "sample_env = \<lparr>comm_reject_request = (\<lambda>c b s. s), reset_flow_level = (\<lambda>s. s)\<rparr>"

definition sample_controller_state :: "sign_msg_level \<Rightarrow> controller_state" where
  "sample_controller_state l =
     \<lparr>flow_level = \<lparr>level_three = l, screen_input_input_text = [112, 119]\<rparr>,
      counter = \<lparr>next_event_flag = False\<rparr>,
      wallet_credential_data =
        \<lparr>mnemonics = [[97, 98], [99]], passphrase = [120, 121, 122],
         password_single_hash = [1, 2, 3, 4]\<rparr>\<rparr>"

section \<open>Properties of the handlers\<close>

lemmas sample_defs = sample_platform_def sample_query_def sample_machine_def sample_data_def
  nfc_evt_def p0_evt_def usb_evt_def sample_encode_def

subsection \<open>Initiate outside INIT\<close>

text \<open>
  C4. For every flow status other than INIT, an initiate request, dispatched through
  \<open>handle_auth_card_query\<close> or given to \<open>handle_auth_card_initiate_query\<close> directly,
  returns \<open>MANAGER_TASK_INVALID_STATE\<close>; the auth-card data (query and context), the
  response object and the whole machine state (flow-status cell, event source, sent
  messages, screens) are the ones before the call.
\<close>

theorem initiate_outside_INIT_invalid_state:
  assumes "flow_status m \<noteq> MANAGER_AUTH_CARD_STATUS_INIT"
    and "auth_card_which_request (auth_card (query d)) = MANAGER_AUTH_CARD_REQUEST_INITIATE_TAG"
  shows "handle_auth_card_query pf (Some d) (Some r) m
           = Returned (MANAGER_TASK_INVALID_STATE, Some d, Some r, m)
         \<and> handle_auth_card_initiate_query pf (Some d) (Some r) m
           = Returned (MANAGER_TASK_INVALID_STATE, Some d, Some r, m)"
proof -
  have st: "MANAGER_AUTH_CARD_STATUS_INIT \<noteq> core_status_get_flow_status m"
    using assms(1) by (auto simp: core_status_get_flow_status_def)
  have direct: "handle_auth_card_initiate_query pf (Some d) (Some r) m
           = Returned (MANAGER_TASK_INVALID_STATE, Some d, Some r, m)"
    using st by (simp add: handle_auth_card_initiate_query_def)
  have "handle_auth_card_query pf (Some d) (Some r) m
          = handle_auth_card_initiate_query pf (Some d) (Some r) m"
    using assms(2) by (simp add: handle_auth_card_query_def)
  with direct show ?thesis by simp
qed

theorem initiate_outside_INIT_invalid_state_witness:
  "flow_status (sample_machine MANAGER_AUTH_CARD_STATUS_SERIAL_SIGNED [nfc_evt])
     \<noteq> MANAGER_AUTH_CARD_STATUS_INIT
   \<and> handle_auth_card_query sample_platform
      (Some (sample_data MANAGER_AUTH_CARD_REQUEST_INITIATE_TAG True))
      (Some MANAGER_AUTH_CARD_RESPONSE_INIT_ZERO)
      (sample_machine MANAGER_AUTH_CARD_STATUS_SERIAL_SIGNED [nfc_evt])
   = Returned (MANAGER_TASK_INVALID_STATE,
       Some (sample_data MANAGER_AUTH_CARD_REQUEST_INITIATE_TAG True),
       Some MANAGER_AUTH_CARD_RESPONSE_INIT_ZERO,
       sample_machine MANAGER_AUTH_CARD_STATUS_SERIAL_SIGNED [nfc_evt])"
  using initiate_outside_INIT_invalid_state
    [of "sample_machine MANAGER_AUTH_CARD_STATUS_SERIAL_SIGNED [nfc_evt]"
        "sample_data MANAGER_AUTH_CARD_REQUEST_INITIATE_TAG True" sample_platform
        MANAGER_AUTH_CARD_RESPONSE_INIT_ZERO]
  by (simp add: sample_query_def sample_machine_def sample_data_def)

subsection \<open>The inbound query adapter\<close>

text \<open>
  C7. \<open>decode_and_verify_auth_card_query_if_usb_evt\<close>, on an event and an output query
  that both exist: with the USB flag clear it returns success and the output query is
  unchanged; with the flag set it returns \<open>MANAGER_TASK_DECODING_FAILED\<close> when the bytes do
  not parse and \<open>MANAGER_TASK_UNKNOWN_QUERY_REQUEST\<close> when the parsed top-level
  discriminant is not the card-authentication tag, the output query unchanged in both cases;
  when the bytes parse to a card-authentication query it returns success with that query in
  the output. So the output differs from what it was only when the call returns success.
\<close>

theorem decode_and_verify_auth_card_query_cases:
  "(flag evt = False \<longrightarrow>
      decode_and_verify_auth_card_query_if_usb_evt pf (Some evt) (Some q0)
        = (MANAGER_TASK_SUCCESS, Some q0))
   \<and> (flag evt \<and> decode_manager_query pf (p_msg evt) = None \<longrightarrow>
      decode_and_verify_auth_card_query_if_usb_evt pf (Some evt) (Some q0)
        = (MANAGER_TASK_DECODING_FAILED, Some q0))
   \<and> (\<forall>q. flag evt \<and> decode_manager_query pf (p_msg evt) = Some q
            \<and> which_request q \<noteq> MANAGER_QUERY_AUTH_CARD_TAG \<longrightarrow>
      decode_and_verify_auth_card_query_if_usb_evt pf (Some evt) (Some q0)
        = (MANAGER_TASK_UNKNOWN_QUERY_REQUEST, Some q0))
   \<and> (\<forall>q. flag evt \<and> decode_manager_query pf (p_msg evt) = Some q
            \<and> which_request q = MANAGER_QUERY_AUTH_CARD_TAG \<longrightarrow>
      decode_and_verify_auth_card_query_if_usb_evt pf (Some evt) (Some q0)
        = (MANAGER_TASK_SUCCESS, Some q))
   \<and> (snd (decode_and_verify_auth_card_query_if_usb_evt pf (Some evt) (Some q0)) \<noteq> Some q0
        \<longrightarrow> fst (decode_and_verify_auth_card_query_if_usb_evt pf (Some evt) (Some q0))
              = MANAGER_TASK_SUCCESS)"
  by (auto simp: decode_and_verify_auth_card_query_if_usb_evt_def split: option.splits)

theorem decode_and_verify_auth_card_query_cases_witness:
  "decode_and_verify_auth_card_query_if_usb_evt sample_platform
      (Some \<lparr>flag = False, p_msg = [1, 3, 1]\<rparr>)
      (Some (sample_query MANAGER_AUTH_CARD_REQUEST_INITIATE_TAG True))
     = (MANAGER_TASK_SUCCESS, Some (sample_query MANAGER_AUTH_CARD_REQUEST_INITIATE_TAG True))
   \<and> decode_and_verify_auth_card_query_if_usb_evt sample_platform
      (Some \<lparr>flag = True, p_msg = [1, 3]\<rparr>)
      (Some (sample_query MANAGER_AUTH_CARD_REQUEST_INITIATE_TAG True))
     = (MANAGER_TASK_DECODING_FAILED,
        Some (sample_query MANAGER_AUTH_CARD_REQUEST_INITIATE_TAG True))
   \<and> decode_and_verify_auth_card_query_if_usb_evt sample_platform
      (Some \<lparr>flag = True, p_msg = [2, 3, 1]\<rparr>)
      (Some (sample_query MANAGER_AUTH_CARD_REQUEST_INITIATE_TAG True))
     = (MANAGER_TASK_UNKNOWN_QUERY_REQUEST,
        Some (sample_query MANAGER_AUTH_CARD_REQUEST_INITIATE_TAG True))
   \<and> fst (decode_and_verify_auth_card_query_if_usb_evt sample_platform
      (Some \<lparr>flag = True, p_msg = [1, 3, 1]\<rparr>)
      (Some (sample_query MANAGER_AUTH_CARD_REQUEST_INITIATE_TAG True)))
     = MANAGER_TASK_SUCCESS"
  using decode_and_verify_auth_card_query_cases
      [of "\<lparr>flag = False, p_msg = [1, 3, 1]\<rparr>" sample_platform
          "sample_query MANAGER_AUTH_CARD_REQUEST_INITIATE_TAG True"]
    decode_and_verify_auth_card_query_cases
      [of "\<lparr>flag = True, p_msg = [1, 3]\<rparr>" sample_platform
          "sample_query MANAGER_AUTH_CARD_REQUEST_INITIATE_TAG True"]
    decode_and_verify_auth_card_query_cases
      [of "\<lparr>flag = True, p_msg = [2, 3, 1]\<rparr>" sample_platform
          "sample_query MANAGER_AUTH_CARD_REQUEST_INITIATE_TAG True"]
    decode_and_verify_auth_card_query_cases
      [of "\<lparr>flag = True, p_msg = [1, 3, 1]\<rparr>" sample_platform
          "sample_query MANAGER_AUTH_CARD_REQUEST_INITIATE_TAG True"]
  by (simp add: sample_platform_def sample_query_def)

subsection \<open>NULL arguments\<close>

text \<open>
  The initiate handler, the challenge handler and the dispatcher return
  \<open>MANAGER_TASK_INVALID_ARGS\<close> and change nothing when either pointer is NULL.
\<close>

lemma null_pointer_guards:
  assumes "auth_card_data = None \<or> resp = None"
  shows "handle_auth_card_initiate_query pf auth_card_data resp m
           = Returned (MANAGER_TASK_INVALID_ARGS, auth_card_data, resp, m)"
    and "handle_auth_card_challenge_query pf auth_card_data resp m
           = Returned (MANAGER_TASK_INVALID_ARGS, auth_card_data, resp, m)"
    and "handle_auth_card_query pf auth_card_data resp m
           = Returned (MANAGER_TASK_INVALID_ARGS, auth_card_data, resp, m)"
  using assms
  by (auto simp: handle_auth_card_initiate_query_def handle_auth_card_challenge_query_def
        handle_auth_card_query_def)

text \<open>
  The result handler guards with \<open>NULL == auth_card_data && NULL != resp\<close>: it returns
  \<open>MANAGER_TASK_INVALID_ARGS\<close> only when the data pointer is NULL and the response pointer
  is not.
\<close>

lemma handle_auth_card_result_query_guard:
  "handle_auth_card_result_query pf None (Some r) m
     = Returned (MANAGER_TASK_INVALID_ARGS, None, Some r, m)"
  "handle_auth_card_result_query pf None None m = Fault NullDereference"
  by (simp_all add: handle_auth_card_result_query_def)

text \<open>
  C9, at a failing input. With a NULL response pointer and existing auth-card data, the
  result handler in status INIT returns \<open>MANAGER_TASK_INVALID_STATE\<close>, not
  \<open>MANAGER_TASK_INVALID_ARGS\<close>; in status SERIAL\_SIGNED with \<open>verified = false\<close> it
  writes through the NULL response pointer; and with both pointers NULL it reads through
  the NULL data pointer.
\<close>

theorem handle_auth_card_result_query_null_resp:
  "handle_auth_card_result_query sample_platform
      (Some (sample_data MANAGER_AUTH_CARD_REQUEST_RESULT_TAG False)) None
      (sample_machine MANAGER_AUTH_CARD_STATUS_INIT [])
     = Returned (MANAGER_TASK_INVALID_STATE,
         Some (sample_data MANAGER_AUTH_CARD_REQUEST_RESULT_TAG False), None,
         sample_machine MANAGER_AUTH_CARD_STATUS_INIT [])
   \<and> handle_auth_card_result_query sample_platform
      (Some (sample_data MANAGER_AUTH_CARD_REQUEST_RESULT_TAG False)) None
      (sample_machine MANAGER_AUTH_CARD_STATUS_SERIAL_SIGNED [])
     = Fault NullDereference
   \<and> handle_auth_card_result_query sample_platform None None
      (sample_machine MANAGER_AUTH_CARD_STATUS_SERIAL_SIGNED [])
     = Fault NullDereference"
  by (simp add: handle_auth_card_result_query_def core_status_get_flow_status_def
        flow_complete_response_def sample_machine_def sample_data_def sample_query_def)

subsection \<open>Entry of the driver\<close>

text \<open>
  C10. For a query that exists and whose auth-card sub-type is not the initiate tag,
  \<open>card_auth_handler\<close> returns at once with the machine state it was given: the
  flow-status cell is not written and nothing is sent. For a query with the initiate tag
  it writes INIT to the flow-status cell and then runs the loop from there, so its outcome
  does not depend on the status it found, and the first dispatch passes the INIT check of
  the initiate handler and goes on to the serial-signing step.
\<close>

theorem card_auth_handler_entry:
  "(auth_card_which_request (auth_card q) \<noteq> MANAGER_AUTH_CARD_REQUEST_INITIATE_TAG \<longrightarrow>
      card_auth_handler pf (Some q) m = Returned m)
   \<and> (auth_card_which_request (auth_card q) = MANAGER_AUTH_CARD_REQUEST_INITIATE_TAG \<longrightarrow>
        card_auth_handler pf (Some q) m
          = card_auth_loop pf
              \<lparr>query = q,
               ctx = \<lparr>heading = [], message = [], acceptable_cards = ACCEPTABLE_CARDS_ALL pf,
                      pair_card_required = False\<rparr>\<rparr>
              MANAGER_AUTH_CARD_RESPONSE_INIT_ZERO
              (m\<lparr>flow_status := MANAGER_AUTH_CARD_STATUS_INIT,
                 status_trace := status_trace m @ [MANAGER_AUTH_CARD_STATUS_INIT]\<rparr>)
        \<and> card_auth_handler pf (Some q) (m\<lparr>flow_status := s\<rparr>) = card_auth_handler pf (Some q) m
        \<and> (\<forall>c. handle_auth_card_query pf
              (Some \<lparr>query = q, ctx = c\<rparr>) (Some MANAGER_AUTH_CARD_RESPONSE_INIT_ZERO)
              (m\<lparr>flow_status := MANAGER_AUTH_CARD_STATUS_INIT,
                 status_trace := status_trace m @ [MANAGER_AUTH_CARD_STATUS_INIT]\<rparr>)
            = handle_sign_card_serial pf
                (Some (prepare_card_auth_context pf \<lparr>query = q, ctx = c\<rparr>))
                (Some MANAGER_AUTH_CARD_RESPONSE_INIT_ZERO)
                (m\<lparr>flow_status := MANAGER_AUTH_CARD_STATUS_USER_CONFIRMED,
                   status_trace := status_trace m @ [MANAGER_AUTH_CARD_STATUS_INIT,
                     MANAGER_AUTH_CARD_STATUS_USER_CONFIRMED]\<rparr>)))"
  by (simp add: card_auth_handler_def core_status_set_flow_status_def
        core_status_get_flow_status_def handle_auth_card_query_def
        handle_auth_card_initiate_query_def)

theorem card_auth_handler_entry_witness:
  "card_auth_handler sample_platform
      (Some (sample_query MANAGER_AUTH_CARD_REQUEST_RESULT_TAG False))
      (sample_machine MANAGER_AUTH_CARD_STATUS_CHALLENGE_SIGNED [nfc_evt])
     = Returned (sample_machine MANAGER_AUTH_CARD_STATUS_CHALLENGE_SIGNED [nfc_evt])
   \<and> card_auth_handler sample_platform
      (Some (sample_query MANAGER_AUTH_CARD_REQUEST_INITIATE_TAG True))
      ((sample_machine MANAGER_AUTH_CARD_STATUS_INIT [nfc_evt])
         \<lparr>flow_status := MANAGER_AUTH_CARD_STATUS_PAIRING_DONE\<rparr>)
     = card_auth_handler sample_platform
      (Some (sample_query MANAGER_AUTH_CARD_REQUEST_INITIATE_TAG True))
      (sample_machine MANAGER_AUTH_CARD_STATUS_INIT [nfc_evt])"
  using card_auth_handler_entry
      [of "sample_query MANAGER_AUTH_CARD_REQUEST_RESULT_TAG False" sample_platform
          "sample_machine MANAGER_AUTH_CARD_STATUS_CHALLENGE_SIGNED [nfc_evt]"]
    card_auth_handler_entry
      [of "sample_query MANAGER_AUTH_CARD_REQUEST_INITIATE_TAG True" sample_platform
          "sample_machine MANAGER_AUTH_CARD_STATUS_INIT [nfc_evt]"
          MANAGER_AUTH_CARD_STATUS_PAIRING_DONE]
  by (simp add: sample_query_def)

subsection \<open>Initiate in INIT\<close>

text \<open>What the serial-signing step keeps: the query, and every field of the context but
  the message; the trace of status writes only grows.\<close>

lemma handle_sign_card_serial_keeps:
  assumes "handle_sign_card_serial pf (Some d) (Some r) m = Returned (c, d', r', m')"
  shows "\<exists>d1. d' = Some d1 \<and> query d1 = query d
           \<and> acceptable_cards (ctx d1) = acceptable_cards (ctx d)
           \<and> pair_card_required (ctx d1) = pair_card_required (ctx d)
           \<and> heading (ctx d1) = heading (ctx d)"
    and "\<exists>rest. status_trace m' = status_trace m @ rest"
  using assms
  by (auto simp: handle_sign_card_serial_def get_events_def instruction_scr_init_def
        nfc_en_select_card_task_def core_status_set_flow_status_def Let_def
      split: if_splits list.splits)

lemma handle_sign_card_serial_blocked:
  assumes "handle_sign_card_serial pf (Some d) (Some r) m = Blocked m'"
  shows "status_trace m' = status_trace m \<and> flow_status m' = flow_status m"
  using assms
  by (auto simp: handle_sign_card_serial_def get_events_def instruction_scr_init_def
        nfc_en_select_card_task_def core_status_set_flow_status_def Let_def
      split: if_splits list.splits)

text \<open>
  C8. In status INIT, \<open>handle_auth_card_initiate_query\<close> writes USER\_CONFIRMED to the
  flow-status cell, prepares the context from the request and continues with the
  serial-signing step on that context. The prepared context has, as acceptable cards, the
  encoding of the requested card index when the request has one and
  \<open>ACCEPTABLE_CARDS_ALL\<close> otherwise; as pairing requirement, the request's \<open>pair_card\<close>
  when it has one and false otherwise; as heading, the tap-card text for the requested card
  number, or the tap-a-card text. Whenever the handler returns, the context it leaves behind
  has these three values and the first status written is USER\_CONFIRMED. For
  card index 2 with pair\_card true the heading is the tap-card text for card 2 and
  pairing is required.
\<close>

theorem handle_auth_card_initiate_query_in_INIT:
  assumes "flow_status m = MANAGER_AUTH_CARD_STATUS_INIT"
  shows "handle_auth_card_initiate_query pf (Some d) (Some r) m
           = handle_sign_card_serial pf (Some (prepare_card_auth_context pf d)) (Some r)
               (m\<lparr>flow_status := MANAGER_AUTH_CARD_STATUS_USER_CONFIRMED,
                  status_trace := status_trace m @ [MANAGER_AUTH_CARD_STATUS_USER_CONFIRMED]\<rparr>)
         \<and> acceptable_cards (ctx (prepare_card_auth_context pf d))
             = (if has_card_index (initiate (auth_card (query d)))
                then encode_card_number pf (card_index (initiate (auth_card (query d))))
                else ACCEPTABLE_CARDS_ALL pf)
         \<and> pair_card_required (ctx (prepare_card_auth_context pf d))
             = (if has_pair_card (initiate (auth_card (query d)))
                then pair_card (initiate (auth_card (query d))) else False)
         \<and> heading (ctx (prepare_card_auth_context pf d))
             = (if has_card_index (initiate (auth_card (query d)))
                then snprintf 30 (UI_TEXT_TAP_CARD pf
                       (ucast (card_index (initiate (auth_card (query d))))))
                else snprintf 30 (ui_text_tap_a_card pf))
         \<and> (\<forall>c d' r' m'.
               handle_auth_card_initiate_query pf (Some d) (Some r) m = Returned (c, d', r', m')
               \<longrightarrow> (\<exists>d1 rest. d' = Some d1
                     \<and> acceptable_cards (ctx d1)
                         = acceptable_cards (ctx (prepare_card_auth_context pf d))
                     \<and> pair_card_required (ctx d1)
                         = pair_card_required (ctx (prepare_card_auth_context pf d))
                     \<and> heading (ctx d1) = heading (ctx (prepare_card_auth_context pf d))
                     \<and> status_trace m'
                         = status_trace m @ MANAGER_AUTH_CARD_STATUS_USER_CONFIRMED # rest))
         \<and> (\<forall>m'. handle_auth_card_initiate_query pf (Some d) (Some r) m = Blocked m'
               \<longrightarrow> flow_status m' = MANAGER_AUTH_CARD_STATUS_USER_CONFIRMED)
         \<and> (has_card_index (initiate (auth_card (query d)))
              \<and> card_index (initiate (auth_card (query d))) = 2
              \<and> has_pair_card (initiate (auth_card (query d)))
              \<and> pair_card (initiate (auth_card (query d)))
            \<longrightarrow> heading (ctx (prepare_card_auth_context pf d))
                   = snprintf 30 (UI_TEXT_TAP_CARD pf 2)
                \<and> pair_card_required (ctx (prepare_card_auth_context pf d)))"
proof -
  let ?m1 = "m\<lparr>flow_status := MANAGER_AUTH_CARD_STATUS_USER_CONFIRMED,
                status_trace := status_trace m @ [MANAGER_AUTH_CARD_STATUS_USER_CONFIRMED]\<rparr>"
  let ?p = "prepare_card_auth_context pf d"
  have step: "handle_auth_card_initiate_query pf (Some d) (Some r) m
                = handle_sign_card_serial pf (Some ?p) (Some r) ?m1"
    using assms
    by (simp add: handle_auth_card_initiate_query_def core_status_get_flow_status_def
          core_status_set_flow_status_def)
  have acc: "acceptable_cards (ctx ?p)
             = (if has_card_index (initiate (auth_card (query d)))
                then encode_card_number pf (card_index (initiate (auth_card (query d))))
                else ACCEPTABLE_CARDS_ALL pf)"
    by (simp add: prepare_card_auth_context_def Let_def)
  have pair: "pair_card_required (ctx ?p)
             = (if has_pair_card (initiate (auth_card (query d)))
                then pair_card (initiate (auth_card (query d))) else False)"
    by (simp add: prepare_card_auth_context_def Let_def)
  have hd: "heading (ctx ?p)
             = (if has_card_index (initiate (auth_card (query d)))
                then snprintf 30 (UI_TEXT_TAP_CARD pf
                       (ucast (card_index (initiate (auth_card (query d))))))
                else snprintf 30 (ui_text_tap_a_card pf))"
    by (simp add: prepare_card_auth_context_def Let_def)
  have ret: "\<exists>d1 rest. d' = Some d1
                     \<and> acceptable_cards (ctx d1) = acceptable_cards (ctx ?p)
                     \<and> pair_card_required (ctx d1) = pair_card_required (ctx ?p)
                     \<and> heading (ctx d1) = heading (ctx ?p)
                     \<and> status_trace m'
                         = status_trace m @ MANAGER_AUTH_CARD_STATUS_USER_CONFIRMED # rest"
    if "handle_auth_card_initiate_query pf (Some d) (Some r) m = Returned (c, d', r', m')"
    for c d' r' m'
  proof -
    from that step have run: "handle_sign_card_serial pf (Some ?p) (Some r) ?m1
                                = Returned (c, d', r', m')"
      by simp
    from handle_sign_card_serial_keeps(1)[OF run] obtain d1 where
      d1: "d' = Some d1" "acceptable_cards (ctx d1) = acceptable_cards (ctx ?p)"
        "pair_card_required (ctx d1) = pair_card_required (ctx ?p)"
        "heading (ctx d1) = heading (ctx ?p)"
      by blast
    from handle_sign_card_serial_keeps(2)[OF run] obtain rest where
      "status_trace m' = status_trace ?m1 @ rest"
      by blast
    then have "status_trace m'
                 = status_trace m @ MANAGER_AUTH_CARD_STATUS_USER_CONFIRMED # rest"
      by simp
    with d1 show ?thesis by blast
  qed
  have blk: "flow_status m' = MANAGER_AUTH_CARD_STATUS_USER_CONFIRMED"
    if "handle_auth_card_initiate_query pf (Some d) (Some r) m = Blocked m'" for m'
    using handle_sign_card_serial_blocked[of pf ?p r ?m1 m'] that step by simp
  have two: "heading (ctx ?p) = snprintf 30 (UI_TEXT_TAP_CARD pf 2)
             \<and> pair_card_required (ctx ?p)"
    if "has_card_index (initiate (auth_card (query d)))
        \<and> card_index (initiate (auth_card (query d))) = 2
        \<and> has_pair_card (initiate (auth_card (query d)))
        \<and> pair_card (initiate (auth_card (query d)))"
    using that hd pair by simp
  show ?thesis
    using step acc pair hd ret blk two by blast
qed

theorem handle_auth_card_initiate_query_in_INIT_witness:
  "flow_status (sample_machine MANAGER_AUTH_CARD_STATUS_INIT [nfc_evt])
     = MANAGER_AUTH_CARD_STATUS_INIT
   \<and> heading (ctx (prepare_card_auth_context sample_platform
        (sample_data MANAGER_AUTH_CARD_REQUEST_INITIATE_TAG True))) = ''Tap card #2''
   \<and> pair_card_required (ctx (prepare_card_auth_context sample_platform
        (sample_data MANAGER_AUTH_CARD_REQUEST_INITIATE_TAG True)))
   \<and> acceptable_cards (ctx (prepare_card_auth_context sample_platform
        (sample_data MANAGER_AUTH_CARD_REQUEST_INITIATE_TAG True))) = 2"
  using handle_auth_card_initiate_query_in_INIT
    [of "sample_machine MANAGER_AUTH_CARD_STATUS_INIT [nfc_evt]" sample_platform
        "sample_data MANAGER_AUTH_CARD_REQUEST_INITIATE_TAG True"
        MANAGER_AUTH_CARD_RESPONSE_INIT_ZERO]
  by (simp add: sample_machine_def sample_data_def sample_query_def sample_platform_def
        sample_digit_def snprintf_def)

section \<open>Runs of the driver\<close>

subsection \<open>The dispatches that succeed\<close>

lemma dispatch_initiate_success:
  assumes "flow_status m = MANAGER_AUTH_CARD_STATUS_INIT"
    and "auth_card_which_request (auth_card (query d)) = MANAGER_AUTH_CARD_REQUEST_INITIATE_TAG"
    and "events m = e # es" and "p0_event_flag e = False"
  shows "\<exists>d1 m1. handle_auth_card_query pf (Some d) (Some r) m
            = Returned (MANAGER_TASK_SUCCESS, Some d1,
                Some (r\<lparr>which_response := MANAGER_AUTH_CARD_RESPONSE_SERIAL_SIGNATURE_TAG\<rparr>), m1)
          \<and> flow_status m1 = MANAGER_AUTH_CARD_STATUS_SERIAL_SIGNED
          \<and> status_trace m1 = status_trace m @ [MANAGER_AUTH_CARD_STATUS_USER_CONFIRMED,
                                                  MANAGER_AUTH_CARD_STATUS_SERIAL_SIGNED]
          \<and> events m1 = es \<and> usb_sent m1 = usb_sent m \<and> usb_clears m1 = usb_clears m
          \<and> pair_card_required (ctx d1) = pair_card_required (ctx (prepare_card_auth_context pf d))"
  using assms
  by (simp add: handle_auth_card_query_def handle_auth_card_initiate_query_def
        handle_sign_card_serial_def core_status_get_flow_status_def
        core_status_set_flow_status_def get_events_def instruction_scr_init_def
        nfc_en_select_card_task_def Let_def)

lemma dispatch_challenge_success:
  assumes "flow_status m = MANAGER_AUTH_CARD_STATUS_SERIAL_SIGNED"
    and "auth_card_which_request (auth_card (query d)) = MANAGER_AUTH_CARD_REQUEST_CHALLENGE_TAG"
    and "events m = e # es" and "p0_event_flag e = False"
  shows "\<exists>d1 m1. handle_auth_card_query pf (Some d) (Some r) m
            = Returned (MANAGER_TASK_SUCCESS, Some d1,
                Some (r\<lparr>which_response := MANAGER_AUTH_CARD_RESPONSE_CHALLENGE_SIGNATURE_TAG\<rparr>), m1)
          \<and> flow_status m1 = MANAGER_AUTH_CARD_STATUS_CHALLENGE_SIGNED
          \<and> status_trace m1 = status_trace m @ [MANAGER_AUTH_CARD_STATUS_CHALLENGE_SIGNED]
          \<and> events m1 = es \<and> usb_sent m1 = usb_sent m \<and> usb_clears m1 = usb_clears m
          \<and> pair_card_required (ctx d1) = pair_card_required (ctx d)"
  using assms
  by (simp add: handle_auth_card_query_def handle_auth_card_challenge_query_def
        handle_sign_challenge_def core_status_get_flow_status_def
        core_status_set_flow_status_def get_events_def instruction_scr_init_def
        nfc_en_select_card_task_def Let_def)

lemma dispatch_result_verified:
  assumes "flow_status m = MANAGER_AUTH_CARD_STATUS_CHALLENGE_SIGNED"
    and "auth_card_which_request (auth_card (query d)) = MANAGER_AUTH_CARD_REQUEST_RESULT_TAG"
    and "verified (result (auth_card (query d)))"
  shows "\<exists>m1. handle_auth_card_query pf (Some d) (Some r) m
            = Returned (MANAGER_TASK_SUCCESS, Some d,
                Some (r\<lparr>which_response := MANAGER_AUTH_CARD_RESPONSE_FLOW_COMPLETE_TAG,
                        flow_complete_dummy_field := 0\<rparr>), m1)
          \<and> flow_status m1 = MANAGER_AUTH_CARD_STATUS_PAIRING_DONE
          \<and> status_trace m1 = status_trace m @ [MANAGER_AUTH_CARD_STATUS_PAIRING_DONE]
          \<and> events m1 = events m \<and> usb_sent m1 = usb_sent m \<and> usb_clears m1 = usb_clears m"
  using assms
  by (simp add: handle_auth_card_query_def handle_auth_card_result_query_def
        flow_complete_response_def core_status_get_flow_status_def
        core_status_set_flow_status_def delay_scr_init_def Let_def)

lemma dispatch_result_not_verified:
  assumes "flow_status m = MANAGER_AUTH_CARD_STATUS_SERIAL_SIGNED
           \<or> flow_status m = MANAGER_AUTH_CARD_STATUS_CHALLENGE_SIGNED"
    and "auth_card_which_request (auth_card (query d)) = MANAGER_AUTH_CARD_REQUEST_RESULT_TAG"
    and "verified (result (auth_card (query d))) = False"
  shows "handle_auth_card_query pf (Some d) (Some r) m
            = Returned (MANAGER_TASK_SUCCESS, Some d,
                Some (r\<lparr>which_response := MANAGER_AUTH_CARD_RESPONSE_FLOW_COMPLETE_TAG,
                        flow_complete_dummy_field := 0\<rparr>),
                m\<lparr>screens := screens m
                     @ [Delay_scr (ui_text_card_authentication_failed pf) (DELAY_TIME pf)]\<rparr>)"
  using assms
  by (auto simp: handle_auth_card_query_def handle_auth_card_result_query_def
        flow_complete_response_def core_status_get_flow_status_def delay_scr_init_def Let_def)

subsection \<open>One pass of the loop after a successful dispatch\<close>

text \<open>The response is sent and cleared; unless the status is PAIRING\_DONE the driver waits
  for the next event, and a host message that decodes to a card-authentication query
  becomes the query of the next pass.\<close>

lemma card_auth_iter_next_query:
  assumes "handle_auth_card_query pf (Some d) (Some r) m
             = Returned (MANAGER_TASK_SUCCESS, Some d1, Some r1, m1)"
    and "which_response r1 \<noteq> MANAGER_AUTH_CARD_RESPONSE_NONE"
    and "encode_manager_result pf
           \<lparr>result_which_response = MANAGER_QUERY_AUTH_CARD_TAG, result_auth_card = r1\<rparr>
           (MANAGER_AUTH_CARD_RESPONSE_SIZE pf + 4) = Some b"
    and "flow_status m1 \<noteq> MANAGER_AUTH_CARD_STATUS_PAIRING_DONE"
    and "events m1 = e # es" and "flag (usb_event e)"
    and "decode_manager_query pf (p_msg (usb_event e)) = Some q'"
    and "which_request q' = MANAGER_QUERY_AUTH_CARD_TAG"
  shows "card_auth_iter pf d r m
           = Continue (d1\<lparr>query := q'\<rparr>) MANAGER_AUTH_CARD_RESPONSE_INIT_ZERO
               (m1\<lparr>usb_sent := usb_sent m1 @ [b], events := es\<rparr>)"
  using assms
  by (simp add: card_auth_iter_def send_auth_card_response_def usb_send_msg_def
        core_status_get_flow_status_def get_events_def
        decode_and_verify_auth_card_query_if_usb_evt_def Let_def)

lemma card_auth_iter_pairing_done:
  assumes "handle_auth_card_query pf (Some d) (Some r) m
             = Returned (MANAGER_TASK_SUCCESS, Some d1, Some r1, m1)"
    and "which_response r1 \<noteq> MANAGER_AUTH_CARD_RESPONSE_NONE"
    and "encode_manager_result pf
           \<lparr>result_which_response = MANAGER_QUERY_AUTH_CARD_TAG, result_auth_card = r1\<rparr>
           (MANAGER_AUTH_CARD_RESPONSE_SIZE pf + 4) = Some b"
    and "flow_status m1 = MANAGER_AUTH_CARD_STATUS_PAIRING_DONE"
  shows "card_auth_iter pf d r m = Stop (Returned (m1\<lparr>usb_sent := usb_sent m1 @ [b]\<rparr>))"
  using assms
  by (simp add: card_auth_iter_def send_auth_card_response_def usb_send_msg_def
        core_status_get_flow_status_def Let_def)

lemma card_auth_loop_Continue:
  "card_auth_iter pf d r m = Continue d1 r1 m1 \<Longrightarrow>
     card_auth_loop pf d r m = card_auth_loop pf d1 r1 m1"
  by (subst card_auth_loop.simps) simp

lemma card_auth_loop_Stop:
  "card_auth_iter pf d r m = Stop out \<Longrightarrow> card_auth_loop pf d r m = out"
  by (subst card_auth_loop.simps) simp

subsection \<open>The full successful run\<close>

text \<open>The definitions that a run on concrete inputs unfolds.\<close>

lemmas driver_defs = card_auth_handler_def card_auth_loop.simps card_auth_iter_def
  handle_auth_card_query_def handle_auth_card_initiate_query_def
  handle_auth_card_challenge_query_def handle_auth_card_result_query_def
  handle_sign_card_serial_def handle_sign_challenge_def flow_complete_response_def
  prepare_card_auth_context_def send_auth_card_response_def
  decode_and_verify_auth_card_query_if_usb_evt_def
  core_status_get_flow_status_def core_status_set_flow_status_def get_events_def
  instruction_scr_init_def delay_scr_init_def nfc_en_select_card_task_def
  usb_clear_event_def usb_send_msg_def snprintf_def SIGN_SERIAL_BEEP_COUNT_def
  SIGN_CHALLENGE_BEEP_COUNT_def MANAGER_AUTH_CARD_RESPONSE_INIT_ZERO_def
  sample_digit_def Let_def

text \<open>
  C3. The driver is started with an initiate request (requiring pairing or not). The event
  source delivers, in order: a hardware event (no abort) at the first NFC wait, a host
  message that decodes to a challenge request, a hardware event at the second NFC wait,
  and a host message that decodes to a result request with \<open>verified = true\<close>; the
  encoder accepts the three responses. Then the driver returns, having sent exactly three
  messages: the serial-signature response, the challenge-signature response and the
  flow-complete response, in this order; the flow status is PAIRING\_DONE, reached through
  INIT, USER\_CONFIRMED, SERIAL\_SIGNED, CHALLENGE\_SIGNED; the events after the fourth are
  not consumed.
\<close>

theorem card_auth_handler_happy_path:
  assumes ini: "auth_card_which_request (auth_card q) = MANAGER_AUTH_CARD_REQUEST_INITIATE_TAG"
    and evs: "events m = e1 # e2 # e3 # e4 # rest"
    and nfc1: "p0_event_flag e1 = False"
    and usb2: "flag (usb_event e2)"
              "decode_manager_query pf (p_msg (usb_event e2)) = Some q2"
              "which_request q2 = MANAGER_QUERY_AUTH_CARD_TAG"
              "auth_card_which_request (auth_card q2) = MANAGER_AUTH_CARD_REQUEST_CHALLENGE_TAG"
    and nfc3: "p0_event_flag e3 = False"
    and usb4: "flag (usb_event e4)"
              "decode_manager_query pf (p_msg (usb_event e4)) = Some q4"
              "which_request q4 = MANAGER_QUERY_AUTH_CARD_TAG"
              "auth_card_which_request (auth_card q4) = MANAGER_AUTH_CARD_REQUEST_RESULT_TAG"
              "verified (result (auth_card q4))"
    and enc: "encode_manager_result pf
                \<lparr>result_which_response = MANAGER_QUERY_AUTH_CARD_TAG,
                 result_auth_card =
                   \<lparr>which_response = MANAGER_AUTH_CARD_RESPONSE_SERIAL_SIGNATURE_TAG,
                    flow_complete_dummy_field = 0\<rparr>\<rparr>
                (MANAGER_AUTH_CARD_RESPONSE_SIZE pf + 4) = Some b1"
             "encode_manager_result pf
                \<lparr>result_which_response = MANAGER_QUERY_AUTH_CARD_TAG,
                 result_auth_card =
                   \<lparr>which_response = MANAGER_AUTH_CARD_RESPONSE_CHALLENGE_SIGNATURE_TAG,
                    flow_complete_dummy_field = 0\<rparr>\<rparr>
                (MANAGER_AUTH_CARD_RESPONSE_SIZE pf + 4) = Some b2"
             "encode_manager_result pf
                \<lparr>result_which_response = MANAGER_QUERY_AUTH_CARD_TAG,
                 result_auth_card =
                   \<lparr>which_response = MANAGER_AUTH_CARD_RESPONSE_FLOW_COMPLETE_TAG,
                    flow_complete_dummy_field = 0\<rparr>\<rparr>
                (MANAGER_AUTH_CARD_RESPONSE_SIZE pf + 4) = Some b3"
  shows "\<exists>m'. card_auth_handler pf (Some q) m = Returned m'
           \<and> usb_sent m' = usb_sent m @ [b1, b2, b3]
           \<and> flow_status m' = MANAGER_AUTH_CARD_STATUS_PAIRING_DONE
           \<and> status_trace m' = status_trace m @
                [MANAGER_AUTH_CARD_STATUS_INIT, MANAGER_AUTH_CARD_STATUS_USER_CONFIRMED,
                 MANAGER_AUTH_CARD_STATUS_SERIAL_SIGNED, MANAGER_AUTH_CARD_STATUS_CHALLENGE_SIGNED,
                 MANAGER_AUTH_CARD_STATUS_PAIRING_DONE]
           \<and> events m' = rest
           \<and> usb_clears m' = usb_clears m"
proof -
  let ?Z = MANAGER_AUTH_CARD_RESPONSE_INIT_ZERO
  let ?d0 = "\<lparr>query = q,
              ctx = \<lparr>heading = [], message = [], acceptable_cards = ACCEPTABLE_CARDS_ALL pf,
                     pair_card_required = False\<rparr>\<rparr>"
  let ?m0 = "core_status_set_flow_status MANAGER_AUTH_CARD_STATUS_INIT m"
  have start: "card_auth_handler pf (Some q) m = card_auth_loop pf ?d0 ?Z ?m0"
    using ini by (simp add: card_auth_handler_def)
  have m0: "flow_status ?m0 = MANAGER_AUTH_CARD_STATUS_INIT"
    "events ?m0 = e1 # e2 # e3 # e4 # rest"
    "status_trace ?m0 = status_trace m @ [MANAGER_AUTH_CARD_STATUS_INIT]"
    "usb_sent ?m0 = usb_sent m" "usb_clears ?m0 = usb_clears m"
    using evs by (simp_all add: core_status_set_flow_status_def)
  \<comment> \<open>first pass: initiate, serial signature\<close>
  from dispatch_initiate_success[of ?m0 ?d0 e1 "e2 # e3 # e4 # rest" pf ?Z] ini m0 nfc1
  obtain d1 m1 where
    h1: "handle_auth_card_query pf (Some ?d0) (Some ?Z) ?m0
           = Returned (MANAGER_TASK_SUCCESS, Some d1,
               Some (?Z\<lparr>which_response := MANAGER_AUTH_CARD_RESPONSE_SERIAL_SIGNATURE_TAG\<rparr>), m1)"
    and m1: "flow_status m1 = MANAGER_AUTH_CARD_STATUS_SERIAL_SIGNED"
      "status_trace m1 = status_trace ?m0 @ [MANAGER_AUTH_CARD_STATUS_USER_CONFIRMED,
                                             MANAGER_AUTH_CARD_STATUS_SERIAL_SIGNED]"
      "events m1 = e2 # e3 # e4 # rest" "usb_sent m1 = usb_sent ?m0"
      "usb_clears m1 = usb_clears ?m0"
    by auto
  let ?m1' = "m1\<lparr>usb_sent := usb_sent m1 @ [b1], events := e3 # e4 # rest\<rparr>"
  have it1: "card_auth_iter pf ?d0 ?Z ?m0 = Continue (d1\<lparr>query := q2\<rparr>) ?Z ?m1'"
    using card_auth_iter_next_query[OF h1 _ _ _ m1(3) usb2(1) usb2(2) usb2(3), of b1] enc(1) m1(1)
    by (simp add: MANAGER_AUTH_CARD_RESPONSE_INIT_ZERO_def)
  \<comment> \<open>second pass: challenge, challenge signature\<close>
  from dispatch_challenge_success[of ?m1' "d1\<lparr>query := q2\<rparr>" e3 "e4 # rest" pf ?Z]
    usb2(4) m1(1) nfc3
  obtain d2 m2 where
    h2: "handle_auth_card_query pf (Some (d1\<lparr>query := q2\<rparr>)) (Some ?Z) ?m1'
           = Returned (MANAGER_TASK_SUCCESS, Some d2,
               Some (?Z\<lparr>which_response :=
                      MANAGER_AUTH_CARD_RESPONSE_CHALLENGE_SIGNATURE_TAG\<rparr>), m2)"
    and m2: "flow_status m2 = MANAGER_AUTH_CARD_STATUS_CHALLENGE_SIGNED"
      "status_trace m2 = status_trace ?m1' @ [MANAGER_AUTH_CARD_STATUS_CHALLENGE_SIGNED]"
      "events m2 = e4 # rest" "usb_sent m2 = usb_sent ?m1'" "usb_clears m2 = usb_clears ?m1'"
    by auto
  let ?m2' = "m2\<lparr>usb_sent := usb_sent m2 @ [b2], events := rest\<rparr>"
  have it2: "card_auth_iter pf (d1\<lparr>query := q2\<rparr>) ?Z ?m1'
               = Continue (d2\<lparr>query := q4\<rparr>) ?Z ?m2'"
    using card_auth_iter_next_query[OF h2 _ _ _ m2(3) usb4(1) usb4(2) usb4(3), of b2] enc(2) m2(1)
    by (simp add: MANAGER_AUTH_CARD_RESPONSE_INIT_ZERO_def)
  \<comment> \<open>third pass: result, flow complete\<close>
  from dispatch_result_verified[of ?m2' "d2\<lparr>query := q4\<rparr>" pf ?Z] usb4(4) usb4(5) m2(1)
  obtain m3 where
    h3: "handle_auth_card_query pf (Some (d2\<lparr>query := q4\<rparr>)) (Some ?Z) ?m2'
           = Returned (MANAGER_TASK_SUCCESS, Some (d2\<lparr>query := q4\<rparr>),
               Some (?Z\<lparr>which_response := MANAGER_AUTH_CARD_RESPONSE_FLOW_COMPLETE_TAG,
                       flow_complete_dummy_field := 0\<rparr>), m3)"
    and m3: "flow_status m3 = MANAGER_AUTH_CARD_STATUS_PAIRING_DONE"
      "status_trace m3 = status_trace ?m2' @ [MANAGER_AUTH_CARD_STATUS_PAIRING_DONE]"
      "events m3 = events ?m2'" "usb_sent m3 = usb_sent ?m2'" "usb_clears m3 = usb_clears ?m2'"
    by auto
  let ?m3' = "m3\<lparr>usb_sent := usb_sent m3 @ [b3]\<rparr>"
  have it3: "card_auth_iter pf (d2\<lparr>query := q4\<rparr>) ?Z ?m2' = Stop (Returned ?m3')"
    using card_auth_iter_pairing_done[OF h3 _ _ m3(1), of b3] enc(3)
    by (simp add: MANAGER_AUTH_CARD_RESPONSE_INIT_ZERO_def)
  have run: "card_auth_handler pf (Some q) m = Returned ?m3'"
    using start card_auth_loop_Continue[OF it1] card_auth_loop_Continue[OF it2]
      card_auth_loop_Stop[OF it3]
    by simp
  have "usb_sent ?m3' = usb_sent m @ [b1, b2, b3]"
    using m0 m1 m2 m3 by simp
  moreover have "flow_status ?m3' = MANAGER_AUTH_CARD_STATUS_PAIRING_DONE"
    using m3 by simp
  moreover have "status_trace ?m3' = status_trace m @
                [MANAGER_AUTH_CARD_STATUS_INIT, MANAGER_AUTH_CARD_STATUS_USER_CONFIRMED,
                 MANAGER_AUTH_CARD_STATUS_SERIAL_SIGNED, MANAGER_AUTH_CARD_STATUS_CHALLENGE_SIGNED,
                 MANAGER_AUTH_CARD_STATUS_PAIRING_DONE]"
    using m0 m1 m2 m3 by simp
  moreover have "events ?m3' = rest"
    using m3 by simp
  moreover have "usb_clears ?m3' = usb_clears m"
    using m0 m1 m2 m3 by simp
  ultimately show ?thesis
    using run by blast
qed

theorem card_auth_handler_happy_path_witness:
  "card_auth_handler sample_platform
      (Some (sample_query MANAGER_AUTH_CARD_REQUEST_INITIATE_TAG True))
      (sample_machine (MANAGER_AUTH_CARD_STATUS_OTHER 7)
         [nfc_evt, usb_evt [1, 2, 0], nfc_evt, usb_evt [1, 3, 1], p0_evt])
     = Returned
        \<lparr>flow_status = MANAGER_AUTH_CARD_STATUS_PAIRING_DONE,
         status_trace =
           [MANAGER_AUTH_CARD_STATUS_INIT, MANAGER_AUTH_CARD_STATUS_USER_CONFIRMED,
            MANAGER_AUTH_CARD_STATUS_SERIAL_SIGNED, MANAGER_AUTH_CARD_STATUS_CHALLENGE_SIGNED,
            MANAGER_AUTH_CARD_STATUS_PAIRING_DONE],
         events = [p0_evt], usb_sent = [[1, 0], [2, 0], [3, 0]],
         screens =
           [Instruction_scr ''Place card till beep 3'' ''Tap card #2'',
            Instruction_scr ''Place card till beep 2'' ''Tap card #2'',
            Instruction_scr ''Place card till beep 1'' ''Tap card #2'',
            Delay_scr ''Card authenticated'' 3000],
         nfc_select_tasks = 2, usb_clears = 0\<rparr>"
proof -
  let ?m = "sample_machine (MANAGER_AUTH_CARD_STATUS_OTHER 7)
              [nfc_evt, usb_evt [1, 2, 0], nfc_evt, usb_evt [1, 3, 1], p0_evt]"
  have "\<exists>m'. card_auth_handler sample_platform
                (Some (sample_query MANAGER_AUTH_CARD_REQUEST_INITIATE_TAG True)) ?m = Returned m'
           \<and> usb_sent m' = usb_sent ?m @ [[1, 0], [2, 0], [3, 0]]
           \<and> flow_status m' = MANAGER_AUTH_CARD_STATUS_PAIRING_DONE
           \<and> status_trace m' = status_trace ?m @
                [MANAGER_AUTH_CARD_STATUS_INIT, MANAGER_AUTH_CARD_STATUS_USER_CONFIRMED,
                 MANAGER_AUTH_CARD_STATUS_SERIAL_SIGNED, MANAGER_AUTH_CARD_STATUS_CHALLENGE_SIGNED,
                 MANAGER_AUTH_CARD_STATUS_PAIRING_DONE]
           \<and> events m' = [p0_evt]
           \<and> usb_clears m' = usb_clears ?m"
    by (rule card_auth_handler_happy_path
          [where ?e1.0 = nfc_evt and ?e2.0 = "usb_evt [1, 2, 0]" and ?e3.0 = nfc_evt
             and ?e4.0 = "usb_evt [1, 3, 1]"
             and ?q2.0 = "the (sample_decode [1, 2, 0])"
             and ?q4.0 = "the (sample_decode [1, 3, 1])"])
       (simp_all add: sample_defs)
  then show ?thesis
    by (simp add: driver_defs sample_defs)
qed

subsection \<open>After a failed result\<close>

lemma card_auth_iter_bad_message:
  assumes "handle_auth_card_query pf (Some d) (Some r) m
             = Returned (MANAGER_TASK_SUCCESS, Some d1, Some r1, m1)"
    and "which_response r1 \<noteq> MANAGER_AUTH_CARD_RESPONSE_NONE"
    and "encode_manager_result pf
           \<lparr>result_which_response = MANAGER_QUERY_AUTH_CARD_TAG, result_auth_card = r1\<rparr>
           (MANAGER_AUTH_CARD_RESPONSE_SIZE pf + 4) = Some b"
    and "flow_status m1 \<noteq> MANAGER_AUTH_CARD_STATUS_PAIRING_DONE"
    and "events m1 = e # es" and "flag (usb_event e)"
    and "decode_manager_query pf (p_msg (usb_event e)) = None
         \<or> (\<exists>q'. decode_manager_query pf (p_msg (usb_event e)) = Some q'
                  \<and> which_request q' \<noteq> MANAGER_QUERY_AUTH_CARD_TAG)"
  shows "card_auth_iter pf d r m
           = Stop (Returned (usb_clear_event (m1\<lparr>usb_sent := usb_sent m1 @ [b], events := es\<rparr>)))"
  using assms
  by (auto simp: card_auth_iter_def send_auth_card_response_def usb_send_msg_def
        core_status_get_flow_status_def get_events_def
        decode_and_verify_auth_card_query_if_usb_evt_def Let_def)

lemma card_auth_iter_no_event:
  assumes "handle_auth_card_query pf (Some d) (Some r) m
             = Returned (MANAGER_TASK_SUCCESS, Some d1, Some r1, m1)"
    and "which_response r1 \<noteq> MANAGER_AUTH_CARD_RESPONSE_NONE"
    and "encode_manager_result pf
           \<lparr>result_which_response = MANAGER_QUERY_AUTH_CARD_TAG, result_auth_card = r1\<rparr>
           (MANAGER_AUTH_CARD_RESPONSE_SIZE pf + 4) = Some b"
    and "flow_status m1 \<noteq> MANAGER_AUTH_CARD_STATUS_PAIRING_DONE"
    and "events m1 = []"
  shows "card_auth_iter pf d r m = Stop (Blocked (m1\<lparr>usb_sent := usb_sent m1 @ [b]\<rparr>))"
  using assms
  by (simp add: card_auth_iter_def send_auth_card_response_def usb_send_msg_def
        core_status_get_flow_status_def get_events_def Let_def)

text \<open>
  C1, as stated, at a concrete run. The run: initiate, a hardware event, then the host
  messages result (\<open>verified = false\<close>), challenge, and one that does not parse, with a
  hardware event for the challenge. The failed result arrives in status SERIAL\_SIGNED and
  its flow-complete response (\<open>[3, 0]\<close>) is sent; the driver does not stop there: the
  challenge request that follows is dispatched, the status becomes CHALLENGE\_SIGNED and
  the challenge-signature response (\<open>[2, 0]\<close>) is sent.
\<close>

theorem failed_result_does_not_stop_the_driver:
  "card_auth_handler sample_platform
      (Some (sample_query MANAGER_AUTH_CARD_REQUEST_INITIATE_TAG True))
      (sample_machine MANAGER_AUTH_CARD_STATUS_INIT
         [nfc_evt, usb_evt [1, 3, 0], usb_evt [1, 2, 0], nfc_evt, usb_evt []])
     = Returned
        \<lparr>flow_status = MANAGER_AUTH_CARD_STATUS_CHALLENGE_SIGNED,
         status_trace =
           [MANAGER_AUTH_CARD_STATUS_INIT, MANAGER_AUTH_CARD_STATUS_USER_CONFIRMED,
            MANAGER_AUTH_CARD_STATUS_SERIAL_SIGNED, MANAGER_AUTH_CARD_STATUS_CHALLENGE_SIGNED],
         events = [], usb_sent = [[1, 0], [3, 0], [2, 0]],
         screens =
           [Instruction_scr ''Place card till beep 3'' ''Tap card #2'',
            Instruction_scr ''Place card till beep 2'' ''Tap card #2'',
            Delay_scr ''Card authentication failed'' 3000,
            Instruction_scr ''Place card till beep 1'' ''Tap card #2''],
         nfc_select_tasks = 2, usb_clears = 1\<rparr>"
  by (simp add: driver_defs sample_defs)

text \<open>
  C1, amended. In status SERIAL\_SIGNED a result request with \<open>verified = false\<close> is
  answered with success and a flow-complete response; the machine state changes only by the
  failure screen, so the flow status stays SERIAL\_SIGNED and no status is written. The pass
  of the loop sends the response and, the status not being PAIRING\_DONE, waits for the
  next event: if nothing more arrives the driver stays blocked; a host message that does not
  parse or is not a card-authentication query makes the driver return; a host message that
  decodes to a card-authentication query is the request of the next pass.
\<close>

theorem failed_result_in_SERIAL_SIGNED:
  assumes st: "flow_status m = MANAGER_AUTH_CARD_STATUS_SERIAL_SIGNED"
    and req: "auth_card_which_request (auth_card (query d)) = MANAGER_AUTH_CARD_REQUEST_RESULT_TAG"
             "verified (result (auth_card (query d))) = False"
    and enc: "encode_manager_result pf
                \<lparr>result_which_response = MANAGER_QUERY_AUTH_CARD_TAG,
                 result_auth_card =
                   r\<lparr>which_response := MANAGER_AUTH_CARD_RESPONSE_FLOW_COMPLETE_TAG,
                     flow_complete_dummy_field := 0\<rparr>\<rparr>
                (MANAGER_AUTH_CARD_RESPONSE_SIZE pf + 4) = Some b"
  shows "handle_auth_card_query pf (Some d) (Some r) m
           = Returned (MANAGER_TASK_SUCCESS, Some d,
               Some (r\<lparr>which_response := MANAGER_AUTH_CARD_RESPONSE_FLOW_COMPLETE_TAG,
                       flow_complete_dummy_field := 0\<rparr>),
               m\<lparr>screens := screens m
                    @ [Delay_scr (ui_text_card_authentication_failed pf) (DELAY_TIME pf)]\<rparr>)
         \<and> (events m = [] \<longrightarrow>
              card_auth_iter pf d r m
                = Stop (Blocked (m\<lparr>screens := screens m
                    @ [Delay_scr (ui_text_card_authentication_failed pf) (DELAY_TIME pf)],
                    usb_sent := usb_sent m @ [b]\<rparr>)))
         \<and> (\<forall>e es. events m = e # es \<and> flag (usb_event e)
               \<and> (decode_manager_query pf (p_msg (usb_event e)) = None
                  \<or> (\<exists>q'. decode_manager_query pf (p_msg (usb_event e)) = Some q'
                           \<and> which_request q' \<noteq> MANAGER_QUERY_AUTH_CARD_TAG)) \<longrightarrow>
              card_auth_iter pf d r m
                = Stop (Returned (m\<lparr>screens := screens m
                    @ [Delay_scr (ui_text_card_authentication_failed pf) (DELAY_TIME pf)],
                    usb_sent := usb_sent m @ [b], events := es,
                    usb_clears := Suc (usb_clears m)\<rparr>)))
         \<and> (\<forall>e es q'. events m = e # es \<and> flag (usb_event e)
               \<and> decode_manager_query pf (p_msg (usb_event e)) = Some q'
               \<and> which_request q' = MANAGER_QUERY_AUTH_CARD_TAG \<longrightarrow>
              card_auth_iter pf d r m
                = Continue (d\<lparr>query := q'\<rparr>) MANAGER_AUTH_CARD_RESPONSE_INIT_ZERO
                    (m\<lparr>screens := screens m
                      @ [Delay_scr (ui_text_card_authentication_failed pf) (DELAY_TIME pf)],
                      usb_sent := usb_sent m @ [b], events := es\<rparr>)
              \<and> card_auth_loop pf d r m
                = card_auth_loop pf (d\<lparr>query := q'\<rparr>) MANAGER_AUTH_CARD_RESPONSE_INIT_ZERO
                    (m\<lparr>screens := screens m
                      @ [Delay_scr (ui_text_card_authentication_failed pf) (DELAY_TIME pf)],
                      usb_sent := usb_sent m @ [b], events := es\<rparr>))"
proof -
  let ?r1 = "r\<lparr>which_response := MANAGER_AUTH_CARD_RESPONSE_FLOW_COMPLETE_TAG,
               flow_complete_dummy_field := 0\<rparr>"
  let ?m1 = "m\<lparr>screens := screens m
               @ [Delay_scr (ui_text_card_authentication_failed pf) (DELAY_TIME pf)]\<rparr>"
  have h: "handle_auth_card_query pf (Some d) (Some r) m
             = Returned (MANAGER_TASK_SUCCESS, Some d, Some ?r1, ?m1)"
    using dispatch_result_not_verified[of m d pf r] st req by simp
  have tag: "which_response ?r1 \<noteq> MANAGER_AUTH_CARD_RESPONSE_NONE"
    by simp
  have st1: "flow_status ?m1 \<noteq> MANAGER_AUTH_CARD_STATUS_PAIRING_DONE"
    using st by simp
  have none: "card_auth_iter pf d r m
                = Stop (Blocked (m\<lparr>screens := screens m
                    @ [Delay_scr (ui_text_card_authentication_failed pf) (DELAY_TIME pf)],
                    usb_sent := usb_sent m @ [b]\<rparr>))"
    if "events m = []"
    using card_auth_iter_no_event[OF h tag enc st1] that by simp
  have bad: "card_auth_iter pf d r m
                = Stop (Returned (m\<lparr>screens := screens m
                    @ [Delay_scr (ui_text_card_authentication_failed pf) (DELAY_TIME pf)],
                    usb_sent := usb_sent m @ [b], events := es,
                    usb_clears := Suc (usb_clears m)\<rparr>))"
    if "events m = e # es \<and> flag (usb_event e)
        \<and> (decode_manager_query pf (p_msg (usb_event e)) = None
           \<or> (\<exists>q'. decode_manager_query pf (p_msg (usb_event e)) = Some q'
                    \<and> which_request q' \<noteq> MANAGER_QUERY_AUTH_CARD_TAG))"
    for e es
    using card_auth_iter_bad_message[OF h tag enc st1, of e es] that
    by (simp add: usb_clear_event_def)
  have good: "card_auth_iter pf d r m
                = Continue (d\<lparr>query := q'\<rparr>) MANAGER_AUTH_CARD_RESPONSE_INIT_ZERO
                    (m\<lparr>screens := screens m
                      @ [Delay_scr (ui_text_card_authentication_failed pf) (DELAY_TIME pf)],
                      usb_sent := usb_sent m @ [b], events := es\<rparr>)"
    if "events m = e # es \<and> flag (usb_event e)
        \<and> decode_manager_query pf (p_msg (usb_event e)) = Some q'
        \<and> which_request q' = MANAGER_QUERY_AUTH_CARD_TAG"
    for e es q'
    using card_auth_iter_next_query[OF h tag enc st1, of e es q'] that by simp
  show ?thesis
    using h none bad good card_auth_loop_Continue[OF good] by blast
qed

theorem failed_result_in_SERIAL_SIGNED_witness:
  "flow_status (sample_machine MANAGER_AUTH_CARD_STATUS_SERIAL_SIGNED [usb_evt [1, 2, 0]])
     = MANAGER_AUTH_CARD_STATUS_SERIAL_SIGNED
   \<and> handle_auth_card_query sample_platform
       (Some (sample_data MANAGER_AUTH_CARD_REQUEST_RESULT_TAG False))
       (Some MANAGER_AUTH_CARD_RESPONSE_INIT_ZERO)
       (sample_machine MANAGER_AUTH_CARD_STATUS_SERIAL_SIGNED [usb_evt [1, 2, 0]])
     = Returned (MANAGER_TASK_SUCCESS,
         Some (sample_data MANAGER_AUTH_CARD_REQUEST_RESULT_TAG False),
         Some \<lparr>which_response = MANAGER_AUTH_CARD_RESPONSE_FLOW_COMPLETE_TAG,
               flow_complete_dummy_field = 0\<rparr>,
         \<lparr>flow_status = MANAGER_AUTH_CARD_STATUS_SERIAL_SIGNED, status_trace = [],
          events = [usb_evt [1, 2, 0]], usb_sent = [],
          screens = [Delay_scr ''Card authentication failed'' 3000],
          nfc_select_tasks = 0, usb_clears = 0\<rparr>)
   \<and> card_auth_iter sample_platform
       (sample_data MANAGER_AUTH_CARD_REQUEST_RESULT_TAG False)
       MANAGER_AUTH_CARD_RESPONSE_INIT_ZERO
       (sample_machine MANAGER_AUTH_CARD_STATUS_SERIAL_SIGNED [usb_evt [1, 2, 0]])
     = Continue
         ((sample_data MANAGER_AUTH_CARD_REQUEST_RESULT_TAG False)
            \<lparr>query := the (sample_decode [1, 2, 0])\<rparr>)
         MANAGER_AUTH_CARD_RESPONSE_INIT_ZERO
         \<lparr>flow_status = MANAGER_AUTH_CARD_STATUS_SERIAL_SIGNED, status_trace = [],
          events = [], usb_sent = [[3, 0]],
          screens = [Delay_scr ''Card authentication failed'' 3000],
          nfc_select_tasks = 0, usb_clears = 0\<rparr>
   \<and> card_auth_iter sample_platform
       (sample_data MANAGER_AUTH_CARD_REQUEST_RESULT_TAG False)
       MANAGER_AUTH_CARD_RESPONSE_INIT_ZERO
       (sample_machine MANAGER_AUTH_CARD_STATUS_SERIAL_SIGNED [usb_evt [7, 2, 0]])
     = Stop (Returned
         \<lparr>flow_status = MANAGER_AUTH_CARD_STATUS_SERIAL_SIGNED, status_trace = [],
          events = [], usb_sent = [[3, 0]],
          screens = [Delay_scr ''Card authentication failed'' 3000],
          nfc_select_tasks = 0, usb_clears = 1\<rparr>)
   \<and> card_auth_iter sample_platform
       (sample_data MANAGER_AUTH_CARD_REQUEST_RESULT_TAG False)
       MANAGER_AUTH_CARD_RESPONSE_INIT_ZERO
       (sample_machine MANAGER_AUTH_CARD_STATUS_SERIAL_SIGNED [])
     = Stop (Blocked
         \<lparr>flow_status = MANAGER_AUTH_CARD_STATUS_SERIAL_SIGNED, status_trace = [],
          events = [], usb_sent = [[3, 0]],
          screens = [Delay_scr ''Card authentication failed'' 3000],
          nfc_select_tasks = 0, usb_clears = 0\<rparr>)"
  using failed_result_in_SERIAL_SIGNED
      [of "sample_machine MANAGER_AUTH_CARD_STATUS_SERIAL_SIGNED [usb_evt [1, 2, 0]]"
          "sample_data MANAGER_AUTH_CARD_REQUEST_RESULT_TAG False" sample_platform
          MANAGER_AUTH_CARD_RESPONSE_INIT_ZERO "[3, 0]"]
    failed_result_in_SERIAL_SIGNED
      [of "sample_machine MANAGER_AUTH_CARD_STATUS_SERIAL_SIGNED [usb_evt [7, 2, 0]]"
          "sample_data MANAGER_AUTH_CARD_REQUEST_RESULT_TAG False" sample_platform
          MANAGER_AUTH_CARD_RESPONSE_INIT_ZERO "[3, 0]"]
    failed_result_in_SERIAL_SIGNED
      [of "sample_machine MANAGER_AUTH_CARD_STATUS_SERIAL_SIGNED []"
          "sample_data MANAGER_AUTH_CARD_REQUEST_RESULT_TAG False" sample_platform
          MANAGER_AUTH_CARD_RESPONSE_INIT_ZERO "[3, 0]"]
  by (simp add: sample_defs MANAGER_AUTH_CARD_RESPONSE_INIT_ZERO_def)

subsection \<open>An abort while waiting for the host\<close>

text \<open>
  C2, at a failing input. The run: initiate, a hardware event, the host message result
  (\<open>verified = false\<close>), then an abort event with no host message. After the abort the
  loop condition \<open>false == p0_event.flag || PAIRING_DONE != status\<close> holds, because the
  status is SERIAL\_SIGNED; the body runs again on the stored result request and a second
  flow-complete response (\<open>[3, 0]\<close>) is sent, after which the driver waits again.
\<close>

theorem abort_while_waiting_resends:
  "card_auth_handler sample_platform
      (Some (sample_query MANAGER_AUTH_CARD_REQUEST_INITIATE_TAG True))
      (sample_machine MANAGER_AUTH_CARD_STATUS_INIT [nfc_evt, usb_evt [1, 3, 0], p0_evt])
     = Blocked
        \<lparr>flow_status = MANAGER_AUTH_CARD_STATUS_SERIAL_SIGNED,
         status_trace =
           [MANAGER_AUTH_CARD_STATUS_INIT, MANAGER_AUTH_CARD_STATUS_USER_CONFIRMED,
            MANAGER_AUTH_CARD_STATUS_SERIAL_SIGNED],
         events = [], usb_sent = [[1, 0], [3, 0], [3, 0]],
         screens =
           [Instruction_scr ''Place card till beep 3'' ''Tap card #2'',
            Instruction_scr ''Place card till beep 2'' ''Tap card #2'',
            Delay_scr ''Card authentication failed'' 3000,
            Delay_scr ''Card authentication failed'' 3000],
         nfc_select_tasks = 1, usb_clears = 0\<rparr>"
  by (simp add: driver_defs sample_defs)

section \<open>Properties of the wallet checksum\<close>

lemma force_tag_bits: "(((x::8 word) AND 0xFC) OR 0x01) AND 0x03 = 0x01"
  by (simp add: bit.conj_disj_distrib2 and.assoc)

text \<open>The checksum field is not part of the checksum input, and a checksum computed from a
  hash of at least four bytes carries the tag.\<close>

lemma checksum_input_checksum_update:
  "checksum_input (w\<lparr>checksum := c\<rparr>) = checksum_input w"
  by (simp add: checksum_input_def)

lemma drop_update_last:
  assumes "length h = 4"
  shows "drop 3 (h[3 := v]) = [v]"
proof -
  from assms obtain a b c d where "h = [a, b, c, d]"
    by (auto simp: length_Suc_conv eval_nat_numeral)
  then show ?thesis
    by (simp add: eval_nat_numeral)
qed

lemma calculate_checksum_tag:
  assumes "CHECKSUM_SIZE \<le> length (sha256 (checksum_input w))"
  shows "checksum_tag_set (w\<lparr>checksum := calculate_checksum sha256 w\<rparr>)"
proof -
  define h where "h = take CHECKSUM_SIZE (sha256 (checksum_input w))"
  have len: "length h = 4"
    using assms by (simp add: h_def CHECKSUM_SIZE_def)
  have "calculate_checksum sha256 w = h[3 := ((h ! 3) AND 0xFC) OR 0x01]"
    by (simp add: calculate_checksum_def h_def Let_def CHECKSUM_SIZE_def)
  then show ?thesis
    using drop_update_last[OF len, of "((h ! 3) AND 0xFC) OR 0x01"]
    by (simp add: checksum_tag_set_def CHECKSUM_SIZE_def force_tag_bits)
qed

lemma verify_checksum_after_calculate:
  assumes "CHECKSUM_SIZE \<le> length (sha256 (checksum_input w))"
  shows "verify_checksum sha256 (Some (w\<lparr>checksum := calculate_checksum sha256 w\<rparr>))"
  using calculate_checksum_tag[of sha256 w] assms
  by (simp add: verify_checksum_def calculate_checksum_def checksum_input_checksum_update)

text \<open>
  C5. \<open>verify_checksum\<close> is false on a NULL wallet; on a wallet whose checksum-present
  tag is unset it is true whatever the wallet holds; on a wallet whose tag is set it is true
  exactly when the stored checksum equals the checksum recomputed over the fixed field
  order.
\<close>

theorem verify_checksum_cases:
  "verify_checksum sha256 None = False
   \<and> (\<not> checksum_tag_set w \<longrightarrow> verify_checksum sha256 (Some w) = True)
   \<and> (checksum_tag_set w \<longrightarrow>
        verify_checksum sha256 (Some w) = (checksum w = calculate_checksum sha256 w))"
  by (simp add: verify_checksum_def)

theorem verify_checksum_cases_witness:
  "\<not> checksum_tag_set (sample_wallet [1, 2, 3, 4])
   \<and> verify_checksum sample_sha256 (Some (sample_wallet [1, 2, 3, 4])) = True
   \<and> checksum_tag_set (sample_wallet [13, 14, 15, 17])
   \<and> calculate_checksum sample_sha256 (sample_wallet [13, 14, 15, 17]) = [13, 14, 15, 17]
   \<and> verify_checksum sample_sha256 (Some (sample_wallet [13, 14, 15, 17])) = True
   \<and> checksum_tag_set (sample_wallet [13, 14, 15, 1])
   \<and> verify_checksum sample_sha256 (Some (sample_wallet [13, 14, 15, 1])) = False"
proof -
  have tags: "\<not> checksum_tag_set (sample_wallet [1, 2, 3, 4])"
    "checksum_tag_set (sample_wallet [13, 14, 15, 17])"
    "checksum_tag_set (sample_wallet [13, 14, 15, 1])"
    by (simp_all add: checksum_tag_set_def sample_wallet_def CHECKSUM_SIZE_def)
  have calc: "calculate_checksum sample_sha256 (sample_wallet c) = [13, 14, 15, 17]" for c
    by (simp add: calculate_checksum_def checksum_input_def sample_wallet_def
          sample_sha256_def CHECKSUM_SIZE_def Let_def numeral_3_eq_3)
  have stored: "checksum (sample_wallet c) = c" for c
    by (simp add: sample_wallet_def)
  show ?thesis
    using verify_checksum_cases[of sample_sha256 "sample_wallet [1, 2, 3, 4]"]
      verify_checksum_cases[of sample_sha256 "sample_wallet [13, 14, 15, 17]"]
      verify_checksum_cases[of sample_sha256 "sample_wallet [13, 14, 15, 1]"]
      tags calc stored
    by simp
qed

section \<open>Properties of the back controller\<close>

lemma all_zero_memzero: "all_zero (memzero buf)"
  by (simp add: all_zero_def memzero_def)

text \<open>
  The four reject cases. The controller's own writes are the next-event flag and, for PIN
  and passphrase entry, the screen input text, which it zeroes. It does not write the
  credential data: after the call the credential data is what \<open>reset_flow_level\<close>, run
  after \<open>comm_reject_request\<close>, left, so it is all zero exactly when the two helpers
  left it so.
\<close>

lemma sign_message_controller_b_eth_reject_cases:
  assumes "(l, cmd) \<in> {(SIGN_MSG_VERIFY_COIN_ETH, SIGN_MSG_START),
                        (SIGN_MSG_VERIFY_CONTRACT_ADDRESS_ETH, SIGN_MSG_START),
                        (SIGN_MSG_ENTER_PIN_ETH, USER_REJECT_PIN_INPUT),
                        (SIGN_MSG_ENTER_PASSPHRASE_ETH, USER_REJECTED_PASSPHRASE_INPUT)}"
    and "level_three (flow_level s) = l"
  shows "wallet_credential_data (sign_message_controller_b_eth env s)
           = wallet_credential_data (reset_flow_level env (comm_reject_request env cmd 0 s))"
    and "credential_data_zero (wallet_credential_data (sign_message_controller_b_eth env s))
           = credential_data_zero (wallet_credential_data
               (reset_flow_level env (comm_reject_request env cmd 0 s)))"
    and "next_event_flag (counter (sign_message_controller_b_eth env s)) = True"
    and "l = SIGN_MSG_ENTER_PIN_ETH \<or> l = SIGN_MSG_ENTER_PASSPHRASE_ETH \<Longrightarrow>
           all_zero (screen_input_input_text (flow_level (sign_message_controller_b_eth env s)))"
  using assms
  by (auto simp: sign_message_controller_b_eth_def Let_def all_zero_memzero)

text \<open>
  The step back from CONFIRM\_PASSPHRASE, the one case that refers to
  \<open>wallet_credential_data\<close>: the passphrase field is zeroed, the mnemonics and the
  password hash are as before, the level becomes ENTER\_PASSPHRASE, and nothing else
  changes. The credential data is all zero afterwards exactly when the mnemonics and the
  password hash were all zero before.
\<close>

lemma sign_message_controller_b_eth_confirm_passphrase:
  assumes "level_three (flow_level s) = SIGN_MSG_CONFIRM_PASSPHRASE_ETH"
  shows "sign_message_controller_b_eth env s
           = s\<lparr>wallet_credential_data := (wallet_credential_data s)\<lparr>passphrase :=
                  replicate (length (passphrase (wallet_credential_data s))) 0\<rparr>,
               flow_level := (flow_level s)\<lparr>level_three := SIGN_MSG_ENTER_PASSPHRASE_ETH\<rparr>\<rparr>"
    and "all_zero (passphrase (wallet_credential_data (sign_message_controller_b_eth env s)))"
    and "credential_data_zero (wallet_credential_data (sign_message_controller_b_eth env s))
           = (all_zero (concat (mnemonics (wallet_credential_data s)))
              \<and> all_zero (password_single_hash (wallet_credential_data s)))"
  using assms
  by (simp_all add: sign_message_controller_b_eth_def Let_def memzero_def all_zero_def
        credential_data_zero_def)

text \<open>Any other level: the \<^verbatim>\<open>default\<close> branch, nothing changes.\<close>

lemma sign_message_controller_b_eth_default:
  "level_three (flow_level s) = SIGN_MSG_OTHER_LEVEL n \<Longrightarrow>
     sign_message_controller_b_eth env s = s"
  by (simp add: sign_message_controller_b_eth_def)

text \<open>The step back on the sample state, in which all three credential fields hold data.\<close>

lemma sign_message_controller_b_eth_confirm_passphrase_sample:
  "wallet_credential_data (sign_message_controller_b_eth sample_env
       (sample_controller_state SIGN_MSG_CONFIRM_PASSPHRASE_ETH))
     = \<lparr>mnemonics = [[97, 98], [99]], passphrase = [0, 0, 0],
        password_single_hash = [1, 2, 3, 4]\<rparr>"
  by (simp add: sign_message_controller_b_eth_def sample_controller_state_def
        memzero_def numeral_3_eq_3)

end
